theory Spec2Isabelle
  imports Complex_Main
begin

section \<open>JavaScript strings\<close>

text \<open>
  A JavaScript string is a sequence of UTF-16 code units. A code unit is modelled by its
  number, so every line and every chunk the demo can receive is a list of numbers; the
  string literals of the source are written \<open>str ''...''\<close>.
\<close>

type_synonym codeunit = nat
type_synonym jsstring = "codeunit list"

abbreviation str :: "string \<Rightarrow> jsstring" where
  "str s \<equiv> map of_char s"

abbreviation (input) NEWLINE :: codeunit where "NEWLINE \<equiv> 10"
abbreviation (input) SLASH :: codeunit where "SLASH \<equiv> 47"

text \<open>
  \<^verbatim>\<open>String.prototype.trim\<close> strips the code units that ECMAScript calls WhiteSpace or
  LineTerminator from both ends: TAB, LF, VT, FF, CR, SP, NBSP, U+1680, U+2000 to U+200A,
  U+2028, U+2029, U+202F, U+205F, U+3000 and U+FEFF.
\<close>

definition isWhiteSpace :: "codeunit \<Rightarrow> bool" where
  "isWhiteSpace c \<longleftrightarrow>
     c = 9 \<or> c = 10 \<or> c = 11 \<or> c = 12 \<or> c = 13 \<or> c = 32 \<or> c = 160 \<or> c = 5760 \<or>
     (8192 \<le> c \<and> c \<le> 8202) \<or> c = 8232 \<or> c = 8233 \<or> c = 8239 \<or> c = 8287 \<or>
     c = 12288 \<or> c = 65279"

definition trimStart :: "jsstring \<Rightarrow> jsstring" where
  "trimStart s = dropWhile isWhiteSpace s"

text \<open>
  \<open>trimEnd\<close> drops the white space at the end: a code unit stays when something stays
  after it or when it is no white space.
\<close>

fun trimEnd :: "jsstring \<Rightarrow> jsstring" where
  "trimEnd [] = []"
| "trimEnd (c # cs) =
     (case trimEnd cs of
        [] \<Rightarrow> if isWhiteSpace c then [] else [c]
      | r # rs \<Rightarrow> c # r # rs)"

definition trim :: "jsstring \<Rightarrow> jsstring" where
  "trim s = trimEnd (trimStart s)"

definition startsWith :: "jsstring \<Rightarrow> jsstring \<Rightarrow> bool" where
  "startsWith s p \<longleftrightarrow> take (length p) s = p"

text \<open>
  \<^verbatim>\<open>s.split(sep)\<close> for a separator of one code unit: the segments between the separators,
  in order. The result is never empty (\<^verbatim>\<open>"".split("/")\<close> is \<^verbatim>\<open>[""]\<close>).
\<close>

fun split_on :: "'a \<Rightarrow> 'a list \<Rightarrow> 'a list list" where
  "split_on sep [] = [[]]"
| "split_on sep (x # xs) =
     (if x = sep then [] # split_on sep xs
      else (case split_on sep xs of
              [] \<Rightarrow> [[x]]
            | l # ls \<Rightarrow> (x # l) # ls))"

text \<open>
  \<^verbatim>\<open>Array.prototype.pop\<close> removes the last element and returns it (\<^verbatim>\<open>undefined\<close>, here
  \<open>None\<close>, on an empty array); \<^verbatim>\<open>xs[0]\<close> on an empty array is \<^verbatim>\<open>undefined\<close> as well.
\<close>

definition pop :: "'a list \<Rightarrow> 'a option \<times> 'a list" where
  "pop xs = (if xs = [] then (None, []) else (Some (last xs), butlast xs))"

definition first :: "'a list \<Rightarrow> 'a option" where
  "first xs = (case xs of [] \<Rightarrow> None | x # _ \<Rightarrow> Some x)"

text \<open>Decimal digits of a natural number, as the template literal prints a status code.\<close>

fun decimal :: "nat \<Rightarrow> jsstring" where
  "decimal n = (if n < 10 then [48 + n] else decimal (n div 10) @ [48 + n mod 10])"

section \<open>The line framer\<close>

text \<open>
  The framing part of the read loop of \<^verbatim>\<open>handleSubmit\<close> (demo.tsx, lines 208 and 215
  to 219):
  \<^verbatim>\<open>
      let buffer = "";
      while (true) {
        ...
        buffer += decoder.decode(value, { stream: true });
        const lines = buffer.split("\n");
        buffer = lines.pop() ?? "";
        for (const line of lines) { ... }
      }
  \<close>
  \<open>frameLines buffer chunks\<close> is the sequence of all values the variable \<^verbatim>\<open>line\<close> takes
  while the chunks are read, together with the buffer left when the stream is done.
  A chunk is the text the streaming decoder returns for one read.
\<close>

fun frameLines :: "jsstring \<Rightarrow> jsstring list \<Rightarrow> jsstring list \<times> jsstring" where
  "frameLines buffer [] = ([], buffer)"
| "frameLines buffer (chunk # chunks) =
     (let buffer1 = buffer @ chunk;
          (popped, lines) = pop (split_on NEWLINE buffer1);
          buffer2 = (case popped of None \<Rightarrow> [] | Some l \<Rightarrow> l);
          (rest, final) = frameLines buffer2 chunks
      in (lines @ rest, final))"


section \<open>JavaScript values and errors\<close>

text \<open>
  The values the demo handles are the results of \<^verbatim>\<open>JSON.parse\<close> and \<^verbatim>\<open>undefined\<close>, which a
  read of a missing property yields. A number is kept as the rational it denotes; the only
  thing the program asks of a number is whether it is zero. An object is the list of its own
  properties, each name once.
\<close>

datatype jsval =
    JUndefined
  | JNull
  | JBool bool
  | JNum rat
  | JStr jsstring
  | JArr "jsval list"
  | JObj "(jsstring \<times> jsval) list"

text \<open>
  What the program can throw. The \<^verbatim>\<open>catch\<close> clause of \<^verbatim>\<open>handleSubmit\<close> tells errors apart by
  their \<^verbatim>\<open>name\<close>; \<^verbatim>\<open>new Error(message)\<close> has the name \<^verbatim>\<open>"Error"\<close>.
\<close>

datatype js_error = AbortError | TypeError | SyntaxError | Error jsstring

fun error_name :: "js_error \<Rightarrow> jsstring" where
  "error_name AbortError = str ''AbortError''"
| "error_name TypeError = str ''TypeError''"
| "error_name SyntaxError = str ''SyntaxError''"
| "error_name (Error message) = str ''Error''"

text \<open>Truthiness, as \<^verbatim>\<open>if (patch)\<close>, \<^verbatim>\<open>prompt || ''\<close> and \<^verbatim>\<open>filter(Boolean)\<close> test it.\<close>

fun truthy :: "jsval \<Rightarrow> bool" where
  "truthy JUndefined = False"
| "truthy JNull = False"
| "truthy (JBool b) = b"
| "truthy (JNum n) = (n \<noteq> 0)"
| "truthy (JStr s) = (s \<noteq> [])"
| "truthy (JArr xs) = True"
| "truthy (JObj ps) = True"

definition nullish :: "jsval \<Rightarrow> bool" where
  "nullish v \<longleftrightarrow> v = JUndefined \<or> v = JNull"

text \<open>
  \<open>getField v name\<close> is the value of the property read \<^verbatim>\<open>v.name\<close> on a value that is neither
  \<^verbatim>\<open>null\<close> nor \<^verbatim>\<open>undefined\<close> (on those the read throws a TypeError, which each caller checks
  with \<open>nullish\<close> first). It is used for the names the program reads, \<^verbatim>\<open>path\<close>, \<^verbatim>\<open>op\<close>,
  \<^verbatim>\<open>value\<close>, \<^verbatim>\<open>prompt\<close>, \<^verbatim>\<open>props\<close>, \<^verbatim>\<open>title\<close>, \<^verbatim>\<open>children\<close>, \<^verbatim>\<open>type\<close> and \<^verbatim>\<open>label\<close>: none of
  them is defined by a builtin prototype, so the read finds an own property of an object
  and \<^verbatim>\<open>undefined\<close> everywhere else.
\<close>

definition getField :: "jsval \<Rightarrow> jsstring \<Rightarrow> jsval" where
  "getField v name =
     (case v of
        JObj ps \<Rightarrow> (case map_of ps name of None \<Rightarrow> JUndefined | Some x \<Rightarrow> x)
      | _ \<Rightarrow> JUndefined)"

section \<open>JSON.parse\<close>

text \<open>
  \<^verbatim>\<open>JSON.parse\<close> is a builtin of the platform. The model is a recursive-descent parser for
  the JSON grammar of ECMA-404 as ECMAScript applies it: the four JSON white space code
  units, the literals, numbers, strings with their escapes, arrays and objects; anything
  else, and any text after the value, is a SyntaxError (\<open>None\<close>). A repeated member name
  keeps its first position and takes the last value. The parser recurses on a fuel counter
  that \<open>JSON_parse\<close> sets to twice the length of the text plus two.
\<close>

abbreviation (input) QUOTE :: codeunit where "QUOTE \<equiv> 34"
abbreviation (input) BACKSLASH :: codeunit where "BACKSLASH \<equiv> 92"

definition isJsonWs :: "codeunit \<Rightarrow> bool" where
  "isJsonWs c \<longleftrightarrow> c = 9 \<or> c = 10 \<or> c = 13 \<or> c = 32"

definition skipWs :: "jsstring \<Rightarrow> jsstring" where
  "skipWs s = dropWhile isJsonWs s"

definition isDigit :: "codeunit \<Rightarrow> bool" where
  "isDigit c \<longleftrightarrow> 48 \<le> c \<and> c \<le> 57"

definition hexDigit :: "codeunit \<Rightarrow> nat option" where
  "hexDigit c =
     (if 48 \<le> c \<and> c \<le> 57 then Some (c - 48)
      else if 65 \<le> c \<and> c \<le> 70 then Some (c - 55)
      else if 97 \<le> c \<and> c \<le> 102 then Some (c - 87)
      else None)"

definition hex4 :: "codeunit \<Rightarrow> codeunit \<Rightarrow> codeunit \<Rightarrow> codeunit \<Rightarrow> codeunit option" where
  "hex4 a b c d =
     (case (hexDigit a, hexDigit b, hexDigit c, hexDigit d) of
        (Some x, Some y, Some z, Some w) \<Rightarrow> Some (((x * 16 + y) * 16 + z) * 16 + w)
      | _ \<Rightarrow> None)"

text \<open>The single-character escapes: quote, backslash, slash, b, f, n, r and t.\<close>

definition unescape :: "codeunit \<Rightarrow> codeunit option" where
  "unescape e =
     (if e = QUOTE \<or> e = BACKSLASH \<or> e = SLASH then Some e
      else if e = 98 then Some 8
      else if e = 102 then Some 12
      else if e = 110 then Some 10
      else if e = 114 then Some 13
      else if e = 116 then Some 9
      else None)"

text \<open>
  \<open>parseString s\<close> reads a string body after its opening quote and returns the content and
  the text after the closing quote. Code unit 117 is the letter u of a \<^verbatim>\<open>\uXXXX\<close> escape;
  a raw control character (below 32) is not allowed.
\<close>

fun parseString :: "jsstring \<Rightarrow> (jsstring \<times> jsstring) option" where
  "parseString [] = None"
| "parseString (c # cs) =
     (if c = QUOTE then Some ([], cs)
      else if c = BACKSLASH then
        (case cs of
           [] \<Rightarrow> None
         | e # es \<Rightarrow>
             if e = 117 then
               (case es of
                  a # b # c # d # rest \<Rightarrow>
                    (case hex4 a b c d of
                       None \<Rightarrow> None
                     | Some u \<Rightarrow> map_option (\<lambda>(s, r). (u # s, r)) (parseString rest))
                | _ \<Rightarrow> None)
             else
               (case unescape e of
                  None \<Rightarrow> None
                | Some u \<Rightarrow> map_option (\<lambda>(s, r). (u # s, r)) (parseString es)))
      else if c < 32 then None
      else map_option (\<lambda>(s, r). (c # s, r)) (parseString cs))"

definition digitsValue :: "jsstring \<Rightarrow> nat" where
  "digitsValue ds = foldl (\<lambda>a d. 10 * a + (d - 48)) 0 ds"

text \<open>
  The Number value of a literal is zero exactly when the literal denotes a number of
  magnitude at most \<open>2 ^ -1075\<close>, half the smallest positive double. The rest of the
  rounding to a double is not modelled: no part of the program looks at it.
\<close>

definition roundToNumber :: "rat \<Rightarrow> rat" where
  "roundToNumber q = (if \<bar>q\<bar> \<le> 1 / 2 ^ 1075 then 0 else q)"

text \<open>
  \<open>parseNumber s\<close> reads the longest number literal at the start of \<open>s\<close>: an optional minus
  (45), an integer part without a leading zero, an optional fraction after a dot (46) and an
  optional exponent after e or E (101, 69) with an optional sign (43, 45).
\<close>

definition parseNumber :: "jsstring \<Rightarrow> (rat \<times> jsstring) option" where
  "parseNumber s =
     (let negative = (s \<noteq> [] \<and> hd s = 45);
          s1 = (if negative then tl s else s)
      in if s1 = [] \<or> \<not> isDigit (hd s1) then None
         else
           let ip = (if hd s1 = 48 then [48] else takeWhile isDigit s1);
               s2 = drop (length ip) s1;
               hasFrac = (case s2 of c # d # _ \<Rightarrow> c = 46 \<and> isDigit d | _ \<Rightarrow> False);
               fp = (if hasFrac then takeWhile isDigit (tl s2) else []);
               s3 = (if hasFrac then drop (length fp) (tl s2) else s2);
               esign = (case s3 of c # d # _ \<Rightarrow> (c = 101 \<or> c = 69) \<and> (d = 43 \<or> d = 45)
                        | _ \<Rightarrow> False);
               s4 = (if esign then drop 2 s3 else drop 1 s3);
               hasExp = (case s3 of c # _ \<Rightarrow> (c = 101 \<or> c = 69) \<and> s4 \<noteq> [] \<and> isDigit (hd s4)
                         | _ \<Rightarrow> False);
               ep = (if hasExp then takeWhile isDigit s4 else []);
               s5 = (if hasExp then drop (length ep) s4 else s3);
               mantissa = of_nat (digitsValue ip) + of_nat (digitsValue fp) / 10 ^ length fp;
               scaled = (if hasExp \<and> esign \<and> s3 ! 1 = 45 then mantissa / 10 ^ digitsValue ep
                         else mantissa * 10 ^ digitsValue ep)
           in Some (roundToNumber (if negative then - scaled else scaled), s5))"

text \<open>
  Object members are defined in order of appearance; a name that is already there has its
  value replaced.
\<close>

fun defineProp :: "jsstring \<Rightarrow> jsval \<Rightarrow> (jsstring \<times> jsval) list \<Rightarrow> (jsstring \<times> jsval) list" where
  "defineProp k v [] = [(k, v)]"
| "defineProp k v (p # ps) = (if fst p = k then (k, v) # ps else p # defineProp k v ps)"

text \<open>
  Code units: 123 and 125 are the braces, 91 and 93 the brackets, 44 the comma and 58 the
  colon.
\<close>

fun parseValue :: "nat \<Rightarrow> jsstring \<Rightarrow> (jsval \<times> jsstring) option"
and parseElements :: "nat \<Rightarrow> jsval list \<Rightarrow> jsstring \<Rightarrow> (jsval \<times> jsstring) option"
and parseMembers :: "nat \<Rightarrow> (jsstring \<times> jsval) list \<Rightarrow> jsstring \<Rightarrow> (jsval \<times> jsstring) option"
where
  "parseValue 0 s = None"
| "parseValue (Suc fuel) s =
     (case skipWs s of
        [] \<Rightarrow> None
      | c # cs \<Rightarrow>
          if c = 123 then
            (case skipWs cs of
               [] \<Rightarrow> None
             | d # ds \<Rightarrow> if d = 125 then Some (JObj [], ds) else parseMembers fuel [] cs)
          else if c = 91 then
            (case skipWs cs of
               [] \<Rightarrow> None
             | d # ds \<Rightarrow> if d = 93 then Some (JArr [], ds) else parseElements fuel [] cs)
          else if c = QUOTE then map_option (\<lambda>(t, r). (JStr t, r)) (parseString cs)
          else if startsWith (c # cs) (str ''true'') then Some (JBool True, drop 4 (c # cs))
          else if startsWith (c # cs) (str ''false'') then Some (JBool False, drop 5 (c # cs))
          else if startsWith (c # cs) (str ''null'') then Some (JNull, drop 4 (c # cs))
          else map_option (\<lambda>(q, r). (JNum q, r)) (parseNumber (c # cs)))"
| "parseElements 0 acc s = None"
| "parseElements (Suc fuel) acc s =
     (case parseValue fuel s of
        None \<Rightarrow> None
      | Some (v, r) \<Rightarrow>
          (case skipWs r of
             [] \<Rightarrow> None
           | c # cs \<Rightarrow>
               if c = 44 then parseElements fuel (acc @ [v]) cs
               else if c = 93 then Some (JArr (acc @ [v]), cs)
               else None))"
| "parseMembers 0 acc s = None"
| "parseMembers (Suc fuel) acc s =
     (case skipWs s of
        [] \<Rightarrow> None
      | q # s1 \<Rightarrow>
          if q \<noteq> QUOTE then None
          else
            (case parseString s1 of
               None \<Rightarrow> None
             | Some (k, s2) \<Rightarrow>
                 (case skipWs s2 of
                    [] \<Rightarrow> None
                  | c # s3 \<Rightarrow>
                      if c \<noteq> 58 then None
                      else
                        (case parseValue fuel s3 of
                           None \<Rightarrow> None
                         | Some (v, s4) \<Rightarrow>
                             (case skipWs s4 of
                                [] \<Rightarrow> None
                              | d # s5 \<Rightarrow>
                                  if d = 44 then parseMembers fuel (defineProp k v acc) s5
                                  else if d = 125 then Some (JObj (defineProp k v acc), s5)
                                  else None)))))"

definition JSON_parse :: "jsstring \<Rightarrow> jsval option" where
  "JSON_parse text =
     (case parseValue (2 * length text + 2) text of
        None \<Rightarrow> None
      | Some (v, r) \<Rightarrow> if skipWs r = [] then Some v else None)"

section \<open>The patch line parser and the tree reducer\<close>

text \<open>
  \<^verbatim>\<open>interface UITree { root: string; elements: Record<string, UIElement>; }\<close>
  Nothing validates what a patch carries, so a root and an element are whatever value the
  patch line held. \<open>elements\<close> is the dictionary of the own entries of the elements object:
  what \<^verbatim>\<open>Object.keys\<close>, an object spread and \<^verbatim>\<open>JSON.stringify\<close> see of it. The object has a
  prototype as well, \<^verbatim>\<open>Object.prototype\<close> when an object literal creates it. The prototype is
  no entry and is not part of this record; the store model of the next section keeps it.
\<close>

record UITree =
  root :: jsval
  elements :: "jsstring \<rightharpoonup> jsval"

text \<open>The tree \<^verbatim>\<open>{ root: "", elements: {} }\<close> a session starts from.\<close>

definition emptyTree :: UITree where
  "emptyTree = \<lparr>root = JStr [], elements = Map.empty\<rparr>"

text \<open>
  \<^verbatim>\<open>
  function parsePatch(line: string): { op: string; path: string; value: unknown } | null {
    try {
      const trimmed = line.trim();
      if (!trimmed || trimmed.startsWith("//")) return null;
      return JSON.parse(trimmed);
    } catch {
      return null;
    }
  }
  \<close>
  The only statement of the body that can throw is \<^verbatim>\<open>JSON.parse\<close>, and the \<^verbatim>\<open>catch\<close> clause
  turns its SyntaxError into \<^verbatim>\<open>null\<close>: the result is a value, never an error. The result of
  a successful parse is returned as it is, whatever its shape.
\<close>

definition parsePatch :: "jsstring \<Rightarrow> jsval" where
  "parsePatch line =
     (let trimmed = trim line in
      if trimmed = [] \<or> startsWith trimmed (str ''//'') then JNull
      else (case JSON_parse trimmed of None \<Rightarrow> JNull | Some v \<Rightarrow> v))"

text \<open>
  \<^verbatim>\<open>
  function applyPatch(tree: UITree, patch: { op: string; path: string; value: unknown }): UITree {
    const newTree = { ...tree, elements: { ...tree.elements } };
    if (patch.path === "/root") {
      newTree.root = patch.value as string;
      return newTree;
    }
    if (patch.path.startsWith("/elements/")) {
      const key = patch.path.slice("/elements/".length).split("/")[0];
      if (key && (patch.op === "set" || patch.op === "add")) {
        newTree.elements[key] = patch.value as UIElement;
      }
    }
    return newTree;
  }
  \<close>
  The declared type of \<^verbatim>\<open>patch\<close> is not checked at run time: \<^verbatim>\<open>patch\<close> is whatever
  \<open>parsePatch\<close> returned. Reading \<^verbatim>\<open>patch.path\<close> of \<^verbatim>\<open>null\<close> throws a TypeError; so does the call
  \<^verbatim>\<open>patch.path.startsWith(...)\<close> when \<^verbatim>\<open>patch.path\<close> is not a string, since then it is
  \<^verbatim>\<open>undefined\<close> or \<^verbatim>\<open>null\<close> or a value without a callable \<^verbatim>\<open>startsWith\<close>.

  The assignment \<^verbatim>\<open>newTree.elements[key] = patch.value\<close> writes to the object that the
  spread \<^verbatim>\<open>{ ...tree.elements }\<close> has just created: it has the own entries of \<^verbatim>\<open>tree.elements\<close>
  and the prototype \<^verbatim>\<open>Object.prototype\<close>. Where the object has an own entry for the key, the
  assignment replaces its value. Where it has none, the assignment creates the entry,
  for every key but one: \<^verbatim>\<open>Object.prototype\<close> defines \<^verbatim>\<open>__proto__\<close> as an accessor, and the
  assignment to that key calls the accessor's setter. The setter creates no entry. It
  makes an object value (or \<^verbatim>\<open>null\<close>) the prototype of the new elements object and drops
  any other value. The own entries of the result are then those of the input.
\<close>

definition applyPatch :: "UITree \<Rightarrow> jsval \<Rightarrow> js_error + UITree" where
  "applyPatch tree patch =
     (let newTree = \<lparr>root = root tree, elements = elements tree\<rparr> in
      if nullish patch then Inl TypeError
      else if getField patch (str ''path'') = JStr (str ''/root'') then
        Inr (newTree\<lparr>root := getField patch (str ''value'')\<rparr>)
      else
        (case getField patch (str ''path'') of
           JStr path \<Rightarrow>
             if startsWith path (str ''/elements/'') then
               (case first (split_on SLASH (drop (length (str ''/elements/'')) path)) of
                  None \<Rightarrow> Inr newTree
                | Some key \<Rightarrow>
                    if key \<noteq> [] \<and> (getField patch (str ''op'') = JStr (str ''set'')
                                    \<or> getField patch (str ''op'') = JStr (str ''add''))
                    then
                      if key = str ''__proto__'' \<and> elements newTree key = None
                      then Inr newTree
                      else Inr (newTree\<lparr>elements :=
                                  (elements newTree)(key \<mapsto> getField patch (str ''value''))\<rparr>)
                    else Inr newTree)
             else Inr newTree
         | _ \<Rightarrow> Inl TypeError))"

section \<open>The tree reducer on a store of objects\<close>

text \<open>
  Whether \<open>applyPatch\<close> mutates its input and what its result shares with it is a question
  about object identity, so the same function is modelled a second time on an explicit
  store. An object lives at an address; it has own properties and a prototype. A value is
  a primitive or a reference to an object. \<open>next_addr\<close> is the first address not yet in
  use: \<open>alloc\<close> creates an object there, with the prototype that an object literal gives.

  \<open>ObjectPrototype\<close> is the builtin prototype an object is created with, \<^verbatim>\<open>Object.prototype\<close>
  for an object literal and for the objects of \<^verbatim>\<open>JSON.parse\<close> (\<^verbatim>\<open>Array.prototype\<close>, which
  inherits from it, for an array). It is not an object of the store. It defines none of
  the names \<^verbatim>\<open>path\<close>, \<^verbatim>\<open>op\<close>, \<^verbatim>\<open>value\<close> and \<^verbatim>\<open>elements\<close> that \<^verbatim>\<open>applyPatch\<close> reads, nor the names
  \<^verbatim>\<open>root\<close> and \<^verbatim>\<open>type\<close> of a tree and of an element, and it defines the accessor \<^verbatim>\<open>__proto__\<close>.
  \<open>NullPrototype\<close> is the prototype \<^verbatim>\<open>null\<close>, and \<open>Prototype a\<close> the object at the address \<open>a\<close>.
\<close>

type_synonym addr = nat

datatype hval = HUndefined | HNull | HBool bool | HNum rat | HStr jsstring | HRef addr

datatype hproto = ObjectPrototype | NullPrototype | Prototype addr

type_synonym hobject = "jsstring \<rightharpoonup> hval"

record heap =
  cells :: "addr \<Rightarrow> hobject"
  protos :: "addr \<Rightarrow> hproto"
  next_addr :: addr

definition alloc :: "hobject \<Rightarrow> heap \<Rightarrow> addr \<times> heap" where
  "alloc obj h = (next_addr h, h\<lparr>cells := (cells h)(next_addr h := obj),
                                 protos := (protos h)(next_addr h := ObjectPrototype),
                                 next_addr := next_addr h + 1\<rparr>)"

definition hnullish :: "hval \<Rightarrow> bool" where
  "hnullish v \<longleftrightarrow> v = HUndefined \<or> v = HNull"

text \<open>
  The property read \<^verbatim>\<open>v.name\<close>, for the names above. On an object it yields the own
  property of that name, or else the property of the prototype, and so on along the
  chain of prototypes; \<^verbatim>\<open>undefined\<close> where the chain ends. A primitive has none of these
  names. JavaScript admits no cycle in a chain of prototypes, so a chain visits
  each object of the store at most once: \<open>next_addr h\<close> steps reach its end, and that is
  the number of steps \<open>hfield\<close> allows.
\<close>

fun lookup :: "heap \<Rightarrow> nat \<Rightarrow> addr \<Rightarrow> jsstring \<Rightarrow> hval" where
  "lookup h 0 a name = HUndefined"
| "lookup h (Suc n) a name =
     (case cells h a name of
        Some v \<Rightarrow> v
      | None \<Rightarrow> (case protos h a of Prototype p \<Rightarrow> lookup h n p name | _ \<Rightarrow> HUndefined))"

definition hfield :: "heap \<Rightarrow> hval \<Rightarrow> jsstring \<Rightarrow> hval" where
  "hfield h v name =
     (case v of
        HRef a \<Rightarrow> lookup h (next_addr h) a name
      | _ \<Rightarrow> HUndefined)"

text \<open>
  \<open>is_object h a\<close>: the address \<open>a\<close> is in use, and so is every prototype that the object at
  \<open>a\<close> inherits from, along a chain that ends.
\<close>

fun proto_chain :: "heap \<Rightarrow> nat \<Rightarrow> addr \<Rightarrow> bool" where
  "proto_chain h 0 a = False"
| "proto_chain h (Suc n) a =
     (a < next_addr h
      \<and> (case protos h a of Prototype p \<Rightarrow> proto_chain h n p | _ \<Rightarrow> True))"

definition is_object :: "heap \<Rightarrow> addr \<Rightarrow> bool" where
  "is_object h a = proto_chain h (next_addr h) a"

text \<open>
  The properties an object spread \<^verbatim>\<open>{ ...v }\<close> copies: the own properties of the object
  \<open>v\<close> refers to, each with the very value (primitive or reference) it has there, and
  nothing of its prototype; the code units of a string, each under its index; nothing
  for \<^verbatim>\<open>undefined\<close>, \<^verbatim>\<open>null\<close>, a boolean or a number.
\<close>

definition spread :: "heap \<Rightarrow> hval \<Rightarrow> hobject" where
  "spread h v =
     (case v of
        HRef a \<Rightarrow> cells h a
      | HStr s \<Rightarrow> map_of (map (\<lambda>i. (decimal i, HStr [s ! i])) [0..<length s])
      | _ \<Rightarrow> Map.empty)"

text \<open>
  \<open>setField\<close> creates or replaces an own property. \<open>setPrototype\<close> is the setter of the
  accessor \<^verbatim>\<open>__proto__\<close> of \<^verbatim>\<open>Object.prototype\<close>: a reference or \<^verbatim>\<open>null\<close> becomes the prototype
  of the object, and for any other value the setter does nothing. (The setter throws
  where the new prototype inherits from the object itself. \<^verbatim>\<open>applyPatch\<close> applies it to an
  object it has just created, which nothing refers to.)
\<close>

definition setField :: "heap \<Rightarrow> addr \<Rightarrow> jsstring \<Rightarrow> hval \<Rightarrow> heap" where
  "setField h a name v = h\<lparr>cells := (cells h)(a := (cells h a)(name \<mapsto> v))\<rparr>"

definition setPrototype :: "heap \<Rightarrow> addr \<Rightarrow> hval \<Rightarrow> heap" where
  "setPrototype h a v =
     (case v of
        HRef p \<Rightarrow> h\<lparr>protos := (protos h)(a := Prototype p)\<rparr>
      | HNull \<Rightarrow> h\<lparr>protos := (protos h)(a := NullPrototype)\<rparr>
      | _ \<Rightarrow> h)"

text \<open>
  \<open>applyPatch_heap h treeRef patch\<close> follows \<^verbatim>\<open>applyPatch\<close> statement by statement. The
  object literal \<^verbatim>\<open>{ ...tree, elements: { ...tree.elements } }\<close> creates the outer object
  with the properties of \<^verbatim>\<open>tree\<close>, then the inner object with the properties of
  \<^verbatim>\<open>tree.elements\<close>, then stores a reference to the inner object in the outer one. The
  assignments \<^verbatim>\<open>newTree.root = ...\<close> and \<^verbatim>\<open>newTree.elements[key] = ...\<close> write to those two
  new objects, whose prototype is \<^verbatim>\<open>Object.prototype\<close>. An assignment replaces the own
  property of the name if there is one. If there is none it creates one, unless the
  name is \<^verbatim>\<open>__proto__\<close>: that assignment reaches the inherited accessor, whose setter
  changes the prototype of the new elements object and creates no property. The result
  is the address of \<^verbatim>\<open>newTree\<close> and the store after the call.
\<close>

definition applyPatch_heap :: "heap \<Rightarrow> addr \<Rightarrow> hval \<Rightarrow> js_error + addr \<times> heap" where
  "applyPatch_heap h treeRef patch =
     (let (newTree, h1) = alloc (spread h (HRef treeRef)) h;
          (newElements, h2) = alloc (spread h1 (hfield h1 (HRef treeRef) (str ''elements''))) h1;
          h3 = setField h2 newTree (str ''elements'') (HRef newElements)
      in if hnullish patch then Inl TypeError
         else if hfield h3 patch (str ''path'') = HStr (str ''/root'') then
           Inr (newTree, setField h3 newTree (str ''root'') (hfield h3 patch (str ''value'')))
         else
           (case hfield h3 patch (str ''path'') of
              HStr path \<Rightarrow>
                if startsWith path (str ''/elements/'') then
                  (case first (split_on SLASH (drop (length (str ''/elements/'')) path)) of
                     None \<Rightarrow> Inr (newTree, h3)
                   | Some key \<Rightarrow>
                       if key \<noteq> [] \<and> (hfield h3 patch (str ''op'') = HStr (str ''set'')
                                       \<or> hfield h3 patch (str ''op'') = HStr (str ''add''))
                       then
                         if key = str ''__proto__'' \<and> cells h3 newElements key = None
                         then Inr (newTree,
                                   setPrototype h3 newElements (hfield h3 patch (str ''value'')))
                         else Inr (newTree,
                                   setField h3 newElements key (hfield h3 patch (str ''value'')))
                       else Inr (newTree, h3))
                else Inr (newTree, h3)
            | _ \<Rightarrow> Inl TypeError))"

text \<open>
  The store after the object literal of the first statement: the copy of the tree at
  \<open>next_addr h\<close>, referring to the copy of its elements at \<open>next_addr h + 1\<close>.
\<close>

definition copied :: "heap \<Rightarrow> addr \<Rightarrow> addr \<Rightarrow> heap" where
  "copied h treeRef e =
     h\<lparr>cells := (cells h)
          (next_addr h := (cells h treeRef)(str ''elements'' \<mapsto> HRef (next_addr h + 1)),
           next_addr h + 1 := cells h e),
       protos := (protos h)
          (next_addr h := ObjectPrototype, next_addr h + 1 := ObjectPrototype),
       next_addr := next_addr h + 2\<rparr>"

text \<open>
  The tree a store holds at an address, as a value of the first model, when \<open>rep\<close> gives the
  value that each store value stands for: its root, and the own entries of its elements.
\<close>

definition absTree :: "(hval \<Rightarrow> jsval) \<Rightarrow> heap \<Rightarrow> addr \<Rightarrow> UITree" where
  "absTree rep h a =
     \<lparr>root = rep (hfield h (HRef a) (str ''root'')),
      elements = (\<lambda>k. map_option rep (spread h (hfield h (HRef a) (str ''elements'')) k))\<rparr>"

section \<open>Conversion to a string\<close>

text \<open>
  \<^verbatim>\<open>String(v)\<close> and the conversion of a property key apply ECMAScript's ToString. The
  digits of a number are left to the parameter \<open>ns\<close>. An array is the join of its elements
  with commas, \<^verbatim>\<open>null\<close> and \<^verbatim>\<open>undefined\<close> elements giving the empty string. An object parsed
  from JSON is \<^verbatim>\<open>"[object Object]"\<close>, unless it has a member named \<^verbatim>\<open>toString\<close>: that member
  is not callable, the inherited or own \<^verbatim>\<open>valueOf\<close> yields no primitive either, and the
  conversion throws a TypeError.
\<close>

fun ToString :: "(rat \<Rightarrow> jsstring) \<Rightarrow> jsval \<Rightarrow> js_error + jsstring"
and joinElements :: "(rat \<Rightarrow> jsstring) \<Rightarrow> jsval list \<Rightarrow> js_error + jsstring"
where
  "ToString ns JUndefined = Inr (str ''undefined'')"
| "ToString ns JNull = Inr (str ''null'')"
| "ToString ns (JBool b) = Inr (if b then str ''true'' else str ''false'')"
| "ToString ns (JNum q) = Inr (ns q)"
| "ToString ns (JStr s) = Inr s"
| "ToString ns (JArr xs) = joinElements ns xs"
| "ToString ns (JObj ps) =
     (if map_of ps (str ''toString'') \<noteq> None then Inl TypeError
      else Inr (str ''[object Object]''))"
| "joinElements ns [] = Inr []"
| "joinElements ns (x # xs) =
     (case (if nullish x then Inr [] else ToString ns x) of
        Inl e \<Rightarrow> Inl e
      | Inr s \<Rightarrow>
          if xs = [] then Inr s
          else (case joinElements ns xs of
                  Inl e \<Rightarrow> Inl e
                | Inr r \<Rightarrow> Inr (s @ str '','' @ r)))"

section \<open>The preview\<close>

text \<open>
  \<^verbatim>\<open>renderPreview\<close> (demo.tsx, lines 252 to 312) from the tree it displays:
  \<^verbatim>\<open>
    if (!currentTree || !currentTree.root || !currentTree.elements[currentTree.root]) {
      return <div ...>{isLoading ? "generating..." : "waiting..."}</div>;
    }
    const root = currentTree.elements[currentTree.root];
    if (!root) return null;
    const title = root.props.title as string | undefined;
    const children = (root.children ?? []).map((key) => currentTree.elements[key])
                       .filter(Boolean) as UIElement[];
    ... children.map((child) => { if (child.type === "Input") { ... child.props.label ... } ... })
  \<close>
  \<open>elementAt\<close> is the lookup \<^verbatim>\<open>currentTree.elements[k]\<close>, which converts \<open>k\<close> to a property
  key first. It yields the own entry of the elements at that key. The lookup of the
  code yields, where the elements have no own entry of the name, what they inherit: a
  member of \<^verbatim>\<open>Object.prototype\<close> for the names that it defines (\<^verbatim>\<open>constructor\<close>, \<^verbatim>\<open>toString\<close>,
  \<^verbatim>\<open>__proto__\<close> and the like), and a property of the prototype that an operation on the
  key \<^verbatim>\<open>__proto__\<close> has installed. \<open>UITree\<close> holds the own entries only, so \<open>elementAt\<close> is the
  lookup of the code for the keys that the elements do not inherit.
\<close>

definition elementAt :: "(rat \<Rightarrow> jsstring) \<Rightarrow> UITree \<Rightarrow> jsval \<Rightarrow> js_error + jsval" where
  "elementAt ns t k =
     (case ToString ns k of
        Inl e \<Rightarrow> Inl e
      | Inr name \<Rightarrow> Inr (case elements t name of None \<Rightarrow> JUndefined | Some v \<Rightarrow> v))"

fun lookupAll :: "(rat \<Rightarrow> jsstring) \<Rightarrow> UITree \<Rightarrow> jsval list \<Rightarrow> js_error + jsval list" where
  "lookupAll ns t [] = Inr []"
| "lookupAll ns t (k # ks) =
     (case elementAt ns t k of
        Inl e \<Rightarrow> Inl e
      | Inr v \<Rightarrow> (case lookupAll ns t ks of Inl e \<Rightarrow> Inl e | Inr vs \<Rightarrow> Inr (v # vs)))"

datatype widget = InputWidget jsval | TextareaWidget jsval | ButtonWidget jsval | NoWidget

definition renderChild :: "jsval \<Rightarrow> js_error + widget" where
  "renderChild child =
     (let label = (if nullish (getField child (str ''props'')) then Inl TypeError
                   else Inr (getField (getField child (str ''props'')) (str ''label'')))
      in if getField child (str ''type'') = JStr (str ''Input'')
         then map_sum id InputWidget label
         else if getField child (str ''type'') = JStr (str ''Textarea'')
         then map_sum id TextareaWidget label
         else if getField child (str ''type'') = JStr (str ''Button'')
         then map_sum id ButtonWidget label
         else Inr NoWidget)"

fun renderChildren :: "jsval list \<Rightarrow> js_error + widget list" where
  "renderChildren [] = Inr []"
| "renderChildren (c # cs) =
     (case renderChild c of
        Inl e \<Rightarrow> Inl e
      | Inr w \<Rightarrow> (case renderChildren cs of Inl e \<Rightarrow> Inl e | Inr ws \<Rightarrow> Inr (w # ws)))"

text \<open>
  The result of a render: the placeholder with its text, \<^verbatim>\<open>null\<close>, or the card with its
  title and the widgets of the resolved children.
\<close>

datatype preview = Placeholder jsstring | RenderNull | Card jsval "widget list"

definition renderPreview ::
    "(rat \<Rightarrow> jsstring) \<Rightarrow> bool \<Rightarrow> UITree option \<Rightarrow> js_error + preview" where
  "renderPreview ns loading currentTree =
     (let placeholder =
            Placeholder (if loading then str ''generating...'' else str ''waiting...'') in
      case currentTree of
        None \<Rightarrow> Inr placeholder
      | Some t \<Rightarrow>
          if \<not> truthy (root t) then Inr placeholder
          else
            (case elementAt ns t (root t) of
               Inl e \<Rightarrow> Inl e
             | Inr rootElement \<Rightarrow>
                 if \<not> truthy rootElement then Inr placeholder
                 else if \<not> truthy rootElement then Inr RenderNull
                 else if nullish (getField rootElement (str ''props'')) then Inl TypeError
                 else
                   (let title = getField (getField rootElement (str ''props'')) (str ''title'');
                        childKeys = (if nullish (getField rootElement (str ''children''))
                                     then JArr [] else getField rootElement (str ''children''))
                    in case childKeys of
                         JArr keys \<Rightarrow>
                           (case lookupAll ns t keys of
                              Inl e \<Rightarrow> Inl e
                            | Inr found \<Rightarrow>
                                (case renderChildren (filter truthy found) of
                                   Inl e \<Rightarrow> Inl e
                                 | Inr ws \<Rightarrow> Inr (Card title ws)))
                       | _ \<Rightarrow> Inl TypeError)))"

section \<open>The generate route\<close>

text \<open>
  \<^verbatim>\<open>
  const MAX_PROMPT_LENGTH = 140;

  export async function POST(req: Request) {
    const { prompt } = await req.json();
    const sanitizedPrompt = String(prompt || '').slice(0, MAX_PROMPT_LENGTH);
    const result = streamText({ ..., prompt: sanitizedPrompt, ... });
    return result.toTextStreamResponse();
  }
  \<close>
  \<open>POST ns body\<close> is the \<^verbatim>\<open>prompt\<close> that \<^verbatim>\<open>streamText\<close> is called with for the request body
  \<open>body\<close>, or the error the handler throws before the call: \<^verbatim>\<open>req.json()\<close> rejects on a body
  that is not JSON, destructuring \<^verbatim>\<open>null\<close> throws, and so can \<^verbatim>\<open>String\<close>.
\<close>

definition MAX_PROMPT_LENGTH :: nat where
  "MAX_PROMPT_LENGTH = 140"

definition sanitizedPrompt :: "(rat \<Rightarrow> jsstring) \<Rightarrow> jsval \<Rightarrow> js_error + jsstring" where
  "sanitizedPrompt ns prompt =
     (case ToString ns (if truthy prompt then prompt else JStr []) of
        Inl e \<Rightarrow> Inl e
      | Inr s \<Rightarrow> Inr (take MAX_PROMPT_LENGTH s))"

definition POST :: "(rat \<Rightarrow> jsstring) \<Rightarrow> jsstring \<Rightarrow> js_error + jsstring" where
  "POST ns body =
     (case JSON_parse body of
        None \<Rightarrow> Inl SyntaxError
      | Some json \<Rightarrow>
          if nullish json then Inl TypeError
          else sanitizedPrompt ns (getField json (str ''prompt'')))"

section \<open>The stream session\<close>

text \<open>
  The state of the \<^verbatim>\<open>Demo\<close> component that \<^verbatim>\<open>handleSubmit\<close> and \<^verbatim>\<open>stopGeneration\<close> read and
  write: the React state variables, the \<^verbatim>\<open>abortRef\<close> with the controllers created so far
  (each is the \<^verbatim>\<open>aborted\<close> flag of its signal, \<open>abortRef\<close> is the index of the current one,
  \<open>None\<close> for \<^verbatim>\<open>null\<close>), and the errors written with \<^verbatim>\<open>console.error\<close>. The functions read the
  committed state, as the handlers of a rendered component do.
\<close>

datatype Mode = Simulation | Interactive
datatype Phase = Typing | Streaming | Complete

record demo =
  mode :: Mode
  phase :: Phase
  typedPrompt :: jsstring
  userPrompt :: jsstring
  streamLines :: "jsstring list"
  tree :: "UITree option"
  isLoading :: bool
  controllers :: "bool list"
  abortRef :: "nat option"
  console :: "js_error list"

definition SIMULATION_PROMPT :: jsstring where
  "SIMULATION_PROMPT = str ''Create a contact form with name, email, and message''"

text \<open>\<^verbatim>\<open>abortRef.current?.abort();\<close>\<close>

definition abortCurrent :: "demo \<Rightarrow> demo" where
  "abortCurrent d =
     (case abortRef d of
        None \<Rightarrow> d
      | Some c \<Rightarrow> d\<lparr>controllers := (controllers d)[c := True]\<rparr>)"

text \<open>
  \<^verbatim>\<open>
  const stopGeneration = useCallback(() => {
    abortRef.current?.abort();
    if (mode === "simulation") {
      setMode("interactive");
      setPhase("complete");
      setTypedPrompt(SIMULATION_PROMPT);
      setUserPrompt("");
    }
    setIsLoading(false);
  }, [mode]);
  \<close>
\<close>

definition stopGeneration :: "demo \<Rightarrow> demo" where
  "stopGeneration d =
     (let d1 = abortCurrent d;
          d2 = (if mode d1 = Simulation
                then d1\<lparr>mode := Interactive, phase := Complete,
                        typedPrompt := SIMULATION_PROMPT, userPrompt := []\<rparr>
                else d1)
      in d2\<lparr>isLoading := False\<rparr>)"

text \<open>
  What the transport does in one session is an input of the model: \<^verbatim>\<open>fetch\<close> rejects, or
  it resolves to a response with a status and possibly a body; the reader of a body
  delivers finitely many chunks and then reports the end of the data or rejects. An
  aborted request is a \<^verbatim>\<open>fetch\<close> or a read that rejects with an AbortError.
\<close>

datatype stream_end = EndOfData | ReadRejects js_error

datatype fetch_result =
    FetchRejects js_error
  | Response nat "(jsstring list \<times> stream_end) option"

text \<open>
  The body of the loop over the lines (lines 220 to 225), which is also the body of the
  final flush (lines 230 to 235) with \<^verbatim>\<open>buffer\<close> for \<^verbatim>\<open>line\<close>:
  \<^verbatim>\<open>
          const patch = parsePatch(line);
          if (patch) {
            currentTree = applyPatch(currentTree, patch);
            setTree({ ...currentTree });
            setStreamLines((prev) => [...prev, line.trim()]);
          }
  \<close>
  The state is the local variable \<^verbatim>\<open>currentTree\<close> and the component state. When
  \<^verbatim>\<open>applyPatch\<close> throws, nothing of this line has been published.
\<close>

definition processLine :: "UITree \<times> demo \<Rightarrow> jsstring \<Rightarrow> js_error + UITree \<times> demo" where
  "processLine st line =
     (let (currentTree, d) = st; patch = parsePatch line in
      if truthy patch then
        (case applyPatch currentTree patch of
           Inl e \<Rightarrow> Inl e
         | Inr currentTree' \<Rightarrow>
             Inr (currentTree',
                  d\<lparr>tree := Some currentTree', streamLines := streamLines d @ [trim line]\<rparr>))
      else Inr st)"

text \<open>\<^verbatim>\<open>for (const line of lines) { ... }\<close>: an error ends the loop with the state reached.\<close>

fun forLines :: "UITree \<times> demo \<Rightarrow> jsstring list \<Rightarrow> js_error option \<times> UITree \<times> demo" where
  "forLines st [] = (None, st)"
| "forLines st (line # lines) =
     (case processLine st line of
        Inl e \<Rightarrow> (Some e, st)
      | Inr st' \<Rightarrow> forLines st' lines)"

text \<open>
  The read loop (lines 211 to 227). It ends with the residual buffer when the reader
  reports the end of the data, and with an error when a read rejects or a line throws.
  \<^verbatim>\<open>
      while (true) {
        const { done, value } = await reader.read();
        if (done) break;
        buffer += decoder.decode(value, { stream: true });
        const lines = buffer.split("\n");
        buffer = lines.pop() ?? "";
        for (const line of lines) { ... }
      }
  \<close>
\<close>

fun readLoop :: "jsstring \<Rightarrow> UITree \<times> demo \<Rightarrow> jsstring list \<Rightarrow> stream_end
                   \<Rightarrow> (js_error + jsstring) \<times> UITree \<times> demo" where
  "readLoop buffer st [] EndOfData = (Inr buffer, st)"
| "readLoop buffer st [] (ReadRejects e) = (Inl e, st)"
| "readLoop buffer st (chunk # chunks) ending =
     (let buffer1 = buffer @ chunk;
          (popped, lines) = pop (split_on NEWLINE buffer1);
          buffer2 = (case popped of None \<Rightarrow> [] | Some l \<Rightarrow> l)
      in case forLines st lines of
           (Some e, st') \<Rightarrow> (Inl e, st')
         | (None, st') \<Rightarrow> readLoop buffer2 st' chunks ending)"

text \<open>
  The \<^verbatim>\<open>try\<close> block (lines 194 to 236): the error it throws, if any, and the component
  state at that moment.
  \<^verbatim>\<open>
      const response = await fetch("/api/generate", { ..., signal: abortRef.current.signal });
      if (!response.ok) throw new Error(`HTTP error: ${response.status}`);
      const reader = response.body?.getReader();
      if (!reader) throw new Error("No response body");
      const decoder = new TextDecoder();
      let buffer = "";
      let currentTree: UITree = { root: "", elements: {} };
      while (true) { ... }
      if (buffer.trim()) { ... }
  \<close>
  \<^verbatim>\<open>response.ok\<close> holds for the statuses 200 to 299.
\<close>

definition tryBlock :: "fetch_result \<Rightarrow> demo \<Rightarrow> js_error option \<times> demo" where
  "tryBlock net d =
     (case net of
        FetchRejects e \<Rightarrow> (Some e, d)
      | Response status body \<Rightarrow>
          if \<not> (200 \<le> status \<and> status \<le> 299)
          then (Some (Error (str ''HTTP error: '' @ decimal status)), d)
          else
            (case body of
               None \<Rightarrow> (Some (Error (str ''No response body'')), d)
             | Some (chunks, ending) \<Rightarrow>
                 (case readLoop [] (emptyTree, d) chunks ending of
                    (Inl e, currentTree, d') \<Rightarrow> (Some e, d')
                  | (Inr buffer, currentTree, d') \<Rightarrow>
                      if trim buffer \<noteq> [] then
                        (case processLine (currentTree, d') buffer of
                           Inl e \<Rightarrow> (Some e, d')
                         | Inr (currentTree', d'') \<Rightarrow> (None, d''))
                      else (None, d'))))"

text \<open>
  The statements between the guard and the \<^verbatim>\<open>try\<close> block (lines 187 to 192):
  \<^verbatim>\<open>
    abortRef.current?.abort();
    abortRef.current = new AbortController();
    setIsLoading(true);
    setStreamLines([]);
    setTree({ root: "", elements: {} });
  \<close>
\<close>

definition startSession :: "demo \<Rightarrow> demo" where
  "startSession d =
     (let d1 = abortCurrent d;
          d2 = d1\<lparr>controllers := controllers d1 @ [False],
                  abortRef := Some (length (controllers d1))\<rparr>
      in d2\<lparr>isLoading := True, streamLines := [], tree := Some emptyTree\<rparr>)"

text \<open>
  \<^verbatim>\<open>
    } catch (err) {
      if ((err as Error).name !== "AbortError") {
        console.error("Generation error:", err);
      }
    } finally {
      setIsLoading(false);
    }
  \<close>
\<close>

definition catchFinally :: "js_error option \<times> demo \<Rightarrow> demo" where
  "catchFinally r =
     (let (err, d) = r;
          d1 = (case err of
                  None \<Rightarrow> d
                | Some e \<Rightarrow> if error_name e \<noteq> str ''AbortError''
                            then d\<lparr>console := console d @ [e]\<rparr> else d)
      in d1\<lparr>isLoading := False\<rparr>)"

text \<open>
  \<^verbatim>\<open>
  const handleSubmit = useCallback(async () => {
    if (!userPrompt.trim() || isLoading) return;
    ...
  }, [userPrompt, isLoading]);
  \<close>
  \<open>handleSubmit net d\<close> is the component state when the call made in state \<open>d\<close> has run to
  its end, the transport behaving as \<open>net\<close> says.
\<close>

definition handleSubmit :: "fetch_result \<Rightarrow> demo \<Rightarrow> demo" where
  "handleSubmit net d =
     (if trim (userPrompt d) = [] \<or> isLoading d then d
      else catchFinally (tryBlock net (startSession d)))"

section \<open>Sample inputs\<close>

text \<open>
  Concrete inputs at which the theorems below are evaluated. The two patch lines are those
  of the forward-reference example of the specification; \<open>formElement\<close> is the value of
  the second.
\<close>

definition setRootLine :: jsstring where
  "setRootLine = str ''{\"op\":\"set\",\"path\":\"/root\",\"value\":\"form\"}''"

definition addFormLine :: jsstring where
  "addFormLine = str ''{\"op\":\"add\",\"path\":\"/elements/form\",\"value\":{\"key\":\"form\",\"type\":\"Form\",\"props\":{},\"children\":[\"name\"]}}''"

definition formElement :: jsval where
  "formElement = JObj [(str ''key'', JStr (str ''form'')), (str ''type'', JStr (str ''Form'')),
                       (str ''props'', JObj []), (str ''children'', JArr [JStr (str ''name'')])]"

text \<open>An element with a title and a child, and a replacement for it that has neither.\<close>

definition oldForm :: jsval where
  "oldForm = JObj [(str ''key'', JStr (str ''form'')), (str ''type'', JStr (str ''Form'')),
                   (str ''props'', JObj [(str ''title'', JStr (str ''Old''))]),
                   (str ''children'', JArr [JStr (str ''a'')])]"

definition newForm :: jsval where
  "newForm = JObj [(str ''key'', JStr (str ''form'')), (str ''type'', JStr (str ''Form'')),
                   (str ''props'', JObj [])]"

text \<open>
  The component while a session A is active: A has published one line and a tree, its
  controller is the current one and has not been aborted. \<open>responseB\<close> is what the
  transport would deliver to a second request, and \<open>idleSession\<close> is the same component
  once A is over.
\<close>

definition sessionA :: demo where
  "sessionA = \<lparr>mode = Interactive, phase = Complete, typedPrompt = SIMULATION_PROMPT,
               userPrompt = str ''login form'',
               streamLines = [str ''{\"op\":\"set\",\"path\":\"/root\",\"value\":\"a\"}''],
               tree = Some \<lparr>root = JStr (str ''a''), elements = Map.empty\<rparr>,
               isLoading = True, controllers = [False], abortRef = Some 0, console = []\<rparr>"

definition responseB :: fetch_result where
  "responseB = Response 200
     (Some ([str ''{\"op\":\"set\",\"path\":\"/root\",\"value\":\"b\"}'' @ [NEWLINE]], EndOfData))"

definition idleSession :: demo where
  "idleSession = sessionA\<lparr>isLoading := False\<rparr>"

text \<open>A request body whose prompt has 150 characters.\<close>

definition longBody :: jsstring where
  "longBody = str ''{\"prompt\":\"'' @ replicate 150 120 @ str ''\"}''"

text \<open>
  A patch line that adds an element under the key \<^verbatim>\<open>__proto__\<close>, the element it carries and
  the patch it parses to. \<open>heapP\<close> is a store with the empty tree at address 0, its elements
  at 1, that patch at 2 and its element at 3, with the props of the element at 4 and its
  array of children at 5.
\<close>

definition protoLine :: jsstring where
  "protoLine = str ''{\"op\":\"add\",\"path\":\"/elements/__proto__\",\"value\":{\"key\":\"__proto__\",\"type\":\"Form\",\"props\":{},\"children\":[]}}''"

definition protoElement :: jsval where
  "protoElement = JObj [(str ''key'', JStr (str ''__proto__'')), (str ''type'', JStr (str ''Form'')),
                        (str ''props'', JObj []), (str ''children'', JArr [])]"

definition protoPatch :: jsval where
  "protoPatch = JObj [(str ''op'', JStr (str ''add'')),
                      (str ''path'', JStr (str ''/elements/__proto__'')),
                      (str ''value'', protoElement)]"

definition heapP :: heap where
  "heapP = \<lparr>cells = (\<lambda>a. Map.empty)
       (0 := [str ''root'' \<mapsto> HStr [], str ''elements'' \<mapsto> HRef 1],
        2 := [str ''op'' \<mapsto> HStr (str ''add''),
              str ''path'' \<mapsto> HStr (str ''/elements/__proto__''),
              str ''value'' \<mapsto> HRef 3],
        3 := [str ''key'' \<mapsto> HStr (str ''__proto__''), str ''type'' \<mapsto> HStr (str ''Form''),
              str ''props'' \<mapsto> HRef 4, str ''children'' \<mapsto> HRef 5]),
     protos = (\<lambda>a. ObjectPrototype),
     next_addr = 6\<rparr>"

text \<open>
  A store with a tree at address 0, its elements at 1, the element \<^verbatim>\<open>form\<close> at 2, and at 3
  a patch that adds the element at 4 under \<^verbatim>\<open>/elements/name\<close>.
\<close>

definition heapA :: heap where
  "heapA = \<lparr>cells = (\<lambda>a. Map.empty)
       (0 := [str ''root'' \<mapsto> HStr (str ''form''), str ''elements'' \<mapsto> HRef 1],
        1 := [str ''form'' \<mapsto> HRef 2],
        2 := [str ''key'' \<mapsto> HStr (str ''form'')],
        3 := [str ''op'' \<mapsto> HStr (str ''add''), str ''path'' \<mapsto> HStr (str ''/elements/name''),
              str ''value'' \<mapsto> HRef 4],
        4 := [str ''key'' \<mapsto> HStr (str ''name'')]),
     protos = (\<lambda>a. ObjectPrototype),
     next_addr = 5\<rparr>"

text \<open>What the values of \<open>heapA\<close> stand for.\<close>

definition repA :: "hval \<Rightarrow> jsval" where
  "repA v =
     (case v of
        HUndefined \<Rightarrow> JUndefined
      | HNull \<Rightarrow> JNull
      | HBool b \<Rightarrow> JBool b
      | HNum q \<Rightarrow> JNum q
      | HStr s \<Rightarrow> JStr s
      | HRef a \<Rightarrow>
          if a = 2 then JObj [(str ''key'', JStr (str ''form''))]
          else if a = 3 then
            JObj [(str ''op'', JStr (str ''add'')), (str ''path'', JStr (str ''/elements/name'')),
                  (str ''value'', JObj [(str ''key'', JStr (str ''name''))])]
          else if a = 4 then JObj [(str ''key'', JStr (str ''name''))]
          else JObj [])"

section \<open>Trimming\<close>

text \<open>\<open>trim\<close> removes the longest prefix and the longest suffix of white space.\<close>

lemma trimEnd_Nil_iff: "trimEnd s = [] \<longleftrightarrow> (\<forall>c \<in> set s. isWhiteSpace c)"
  by (induction s) (auto split: list.splits)

lemma trimEnd_rev: "trimEnd s = rev (dropWhile isWhiteSpace (rev s))"
proof (induction s)
  case Nil
  show ?case by simp
next
  case (Cons c cs)
  show ?case
  proof (cases "\<forall>x \<in> set cs. isWhiteSpace x")
    case True
    then have "trimEnd cs = []" by (simp add: trimEnd_Nil_iff)
    moreover have "dropWhile isWhiteSpace (rev cs @ [c]) = dropWhile isWhiteSpace [c]"
      by (rule dropWhile_append2) (use True in auto)
    ultimately show ?thesis by (simp del: dropWhile_append)
  next
    case False
    then have ne: "trimEnd cs \<noteq> []" by (simp add: trimEnd_Nil_iff)
    obtain x where x: "x \<in> set (rev cs)" "\<not> isWhiteSpace x" using False by auto
    have "dropWhile isWhiteSpace (rev cs @ [c]) = dropWhile isWhiteSpace (rev cs) @ [c]"
      using x by (rule dropWhile_append1)
    then have r: "rev (dropWhile isWhiteSpace (rev (c # cs))) = c # trimEnd cs"
      by (simp add: Cons.IH del: dropWhile_append)
    obtain r rs where "trimEnd cs = r # rs" using ne by (cases "trimEnd cs") auto
    then have "trimEnd (c # cs) = c # trimEnd cs" by simp
    then show ?thesis using r by simp
  qed
qed

lemma trim_rev: "trim s = rev (dropWhile isWhiteSpace (rev (dropWhile isWhiteSpace s)))"
  by (simp add: trim_def trimStart_def trimEnd_rev)

section \<open>The line framer: chunk-boundary independence\<close>

lemma split_on_nonempty: "split_on sep xs \<noteq> []"
  by (induction xs) (auto split: list.splits)

lemma split_on_append:
  "split_on sep (xs @ ys) =
     butlast (split_on sep xs) @ split_on sep (last (split_on sep xs) @ ys)"
proof (induction xs)
  case Nil
  show ?case by simp
next
  case (Cons x xs)
  obtain l ls where s: "split_on sep xs = l # ls"
    using split_on_nonempty [of sep xs] by (cases "split_on sep xs") auto
  show ?case
  proof (cases "x = sep")
    case True
    then show ?thesis using Cons s by simp
  next
    case False
    show ?thesis
    proof (cases ls)
      case Nil
      then show ?thesis using Cons s False by simp
    next
      case (Cons l' ls')
      then show ?thesis using Cons.IH s False by simp
    qed
  qed
qed

lemma split_on_no_sep: "sep \<notin> set xs \<Longrightarrow> split_on sep xs = [xs]"
  by (induction xs) auto

lemma split_on_segments: "l \<in> set (split_on sep xs) \<Longrightarrow> sep \<notin> set l"
  by (induction xs arbitrary: l) (auto split: if_splits list.splits)

lemma split_on_last_no_sep: "sep \<notin> set (last (split_on sep xs))"
  using split_on_segments [of "last (split_on sep xs)" sep xs] split_on_nonempty [of sep xs]
  by simp

lemma frameLines_concat:
  "NEWLINE \<notin> set buffer \<Longrightarrow>
   frameLines buffer chunks =
     (butlast (split_on NEWLINE (buffer @ concat chunks)),
      last (split_on NEWLINE (buffer @ concat chunks)))"
proof (induction chunks arbitrary: buffer)
  case Nil
  then show ?case by (simp add: split_on_no_sep)
next
  case (Cons c cs)
  let ?S1 = "split_on NEWLINE (buffer @ c)"
  have ne: "?S1 \<noteq> []" by (rule split_on_nonempty)
  have ne2: "split_on NEWLINE (last ?S1 @ concat cs) \<noteq> []" by (rule split_on_nonempty)
  have app: "split_on NEWLINE (buffer @ concat (c # cs)) =
      butlast ?S1 @ split_on NEWLINE (last ?S1 @ concat cs)"
    using split_on_append [of NEWLINE "buffer @ c" "concat cs"] by simp
  have ih: "frameLines (last ?S1) cs =
     (butlast (split_on NEWLINE (last ?S1 @ concat cs)),
      last (split_on NEWLINE (last ?S1 @ concat cs)))"
    by (rule Cons.IH) (rule split_on_last_no_sep)
  show ?case
    using ne ne2 by (simp add: pop_def Let_def ih app butlast_append del: concat.simps)
qed

lemma forLines_append:
  "forLines st (xs @ ys) =
     (case forLines st xs of
        (Some e, st') \<Rightarrow> (Some e, st')
      | (None, st') \<Rightarrow> forLines st' ys)"
  by (induction xs arbitrary: st) (auto split: sum.splits)

text \<open>
  The read loop processes exactly the lines \<open>frameLines\<close> lists, in that order, and
  ends with the buffer \<open>frameLines\<close> leaves.
\<close>

lemma readLoop_frameLines:
  "readLoop buffer st chunks ending =
     (case forLines st (fst (frameLines buffer chunks)) of
        (Some e, st') \<Rightarrow> (Inl e, st')
      | (None, st') \<Rightarrow>
          ((case ending of EndOfData \<Rightarrow> Inr (snd (frameLines buffer chunks))
                         | ReadRejects e \<Rightarrow> Inl e), st'))"
proof (induction chunks arbitrary: buffer st)
  case Nil
  show ?case by (cases ending) simp_all
next
  case (Cons c cs)
  obtain popped lines where p: "pop (split_on NEWLINE (buffer @ c)) = (popped, lines)"
    by (cases "pop (split_on NEWLINE (buffer @ c))")
  let ?b2 = "case popped of None \<Rightarrow> [] | Some l \<Rightarrow> l"
  obtain rest final where f: "frameLines ?b2 cs = (rest, final)"
    by (cases "frameLines ?b2 cs")
  obtain err st1 where fl: "forLines st lines = (err, st1)"
    by (cases "forLines st lines")
  have fr: "frameLines buffer (c # cs) = (lines @ rest, final)"
    using p f by simp
  show ?case
  proof (cases err)
    case None
    show ?thesis
      using Cons.IH [of ?b2 st1] p f fl None
      by (cases ending; cases "forLines st1 rest"; cases "fst (forLines st1 rest)")
         (simp_all add: forLines_append fr del: frameLines.simps)
  next
    case (Some e)
    show ?thesis
      using p f fl Some by (simp add: forLines_append fr del: frameLines.simps)
  qed
qed





section \<open>The tree reducer: totality, replacement, ignored operations\<close>

lemma getField_nullish: "nullish v \<Longrightarrow> getField v name = JUndefined"
  by (auto simp: nullish_def getField_def)

lemma applyPatch_string_path:
  assumes "getField patch (str ''path'') = JStr p"
  shows "applyPatch t patch =
     (if p = str ''/root'' then Inr (t\<lparr>root := getField patch (str ''value'')\<rparr>)
      else if startsWith p (str ''/elements/'') then
        (case first (split_on SLASH (drop (length (str ''/elements/'')) p)) of
           None \<Rightarrow> Inr t
         | Some key \<Rightarrow>
             if key \<noteq> [] \<and> (getField patch (str ''op'') = JStr (str ''set'')
                             \<or> getField patch (str ''op'') = JStr (str ''add''))
             then
               if key = str ''__proto__'' \<and> elements t key = None
               then Inr t
               else Inr (t\<lparr>elements := (elements t)(key \<mapsto> getField patch (str ''value''))\<rparr>)
             else Inr t)
      else Inr t)"
proof -
  have nn: "\<not> nullish patch"
    using assms getField_nullish [of patch "str ''path''"] by auto
  have nt: "\<lparr>root = root t, elements = elements t\<rparr> = t" by simp
  show ?thesis
    unfolding applyPatch_def Let_def nt
    using nn assms by simp
qed

lemma applyPatch_not_string_path:
  assumes "\<forall>p. getField patch (str ''path'') \<noteq> JStr p"
  shows "applyPatch t patch = Inl TypeError"
  using assms unfolding applyPatch_def Let_def
  by (cases "getField patch (str ''path'')") simp_all

lemma first_split_on: "first (split_on sep xs) = Some (takeWhile (\<lambda>c. c \<noteq> sep) xs)"
  by (induction xs) (auto simp: first_def split: list.splits)




text \<open>
  An operation on a path \<^verbatim>\<open>/elements/{key}\<close>, where the key is the non-empty segment between
  the prefix and the next slash or the end of the path, with the op \<^verbatim>\<open>set\<close> or \<^verbatim>\<open>add\<close>,
  returns the tree whose entry at the key is the value of the operation and nothing
  else: the entry does not depend on what the tree held at the key before, so no prop
  and no child of the element stored there survives. The root and the other entries are
  those of the input. What follows the key in the path plays no part. This holds for
  every key other than \<^verbatim>\<open>__proto__\<close>, and for \<^verbatim>\<open>__proto__\<close> where the tree has an own entry of
  that name.
\<close>

lemma applyPatch_elements_stores:
  assumes "getField patch (str ''path'') = JStr (str ''/elements/'' @ rest)"
    and "key = takeWhile (\<lambda>c. c \<noteq> SLASH) rest"
    and "key \<noteq> []"
    and "getField patch (str ''op'') = JStr (str ''set'')
         \<or> getField patch (str ''op'') = JStr (str ''add'')"
    and "key \<noteq> str ''__proto__'' \<or> elements t key \<noteq> None"
  shows "applyPatch t patch =
           Inr (t\<lparr>elements := (elements t)(key \<mapsto> getField patch (str ''value''))\<rparr>)"
  using assms by (auto simp: applyPatch_string_path first_split_on startsWith_def)

text \<open>
  At a tree whose element \<^verbatim>\<open>form\<close> has a title and a child, replaced by an element that has
  neither.
\<close>

lemma applyPatch_elements_stores_example:
  "applyPatch \<lparr>root = JStr (str ''form''), elements = [str ''form'' \<mapsto> oldForm]\<rparr>
     (JObj [(str ''op'', JStr (str ''add'')), (str ''path'', JStr (str ''/elements/form'')),
            (str ''value'', newForm)])
   = Inr \<lparr>root = JStr (str ''form''), elements = [str ''form'' \<mapsto> newForm]\<rparr>"
  using applyPatch_elements_stores
    [of "JObj [(str ''op'', JStr (str ''add'')), (str ''path'', JStr (str ''/elements/form'')),
               (str ''value'', newForm)]"
        "str ''form''" "str ''form''"
        "\<lparr>root = JStr (str ''form''), elements = [str ''form'' \<mapsto> oldForm]\<rparr>"]
  by (simp add: getField_def)

text \<open>
  The remaining case: the key is \<^verbatim>\<open>__proto__\<close> and the tree has no own entry of that name.
  Then no entry is created, whatever the value is.
\<close>

lemma applyPatch_proto_key:
  assumes "getField patch (str ''path'') = JStr (str ''/elements/'' @ rest)"
    and "takeWhile (\<lambda>c. c \<noteq> SLASH) rest = str ''__proto__''"
    and "elements t (str ''__proto__'') = None"
  shows "applyPatch t patch = Inr t"
  using assms by (auto simp: applyPatch_string_path first_split_on startsWith_def)



section \<open>The patch line parser: lines that are no patch\<close>

lemma parsePatch_null_iff:
  "parsePatch line = JNull \<longleftrightarrow>
     trim line = [] \<or> startsWith (trim line) (str ''//'') \<or> JSON_parse (trim line) = None
     \<or> JSON_parse (trim line) = Some JNull"
  unfolding parsePatch_def Let_def by (simp split: option.splits)

lemma processLine_not_a_patch:
  "parsePatch line = JNull \<Longrightarrow> processLine (ct, d) line = Inr (ct, d)"
  by (simp add: processLine_def)

text \<open>
  Claim C6 says that \<open>parsePatch\<close> returns \<^verbatim>\<open>null\<close> exactly when the trimmed line is empty,
  is a comment or fails to parse. The line \<^verbatim>\<open>null\<close> is none of these, it parses, and
  \<open>parsePatch\<close> returns \<^verbatim>\<open>null\<close> for it.
\<close>

theorem parsePatch_null_literal_counterexample:
  "parsePatch (str ''null'') = JNull
   \<and> trim (str ''null'') \<noteq> []
   \<and> \<not> startsWith (trim (str ''null'')) (str ''//'')
   \<and> JSON_parse (trim (str ''null'')) \<noteq> None"
proof -
  have t: "trim (str ''null'') = str ''null''"
    by (simp add: trim_def trimStart_def isWhiteSpace_def)
  have p: "JSON_parse (str ''null'') = Some JNull"
    by code_simp
  show ?thesis
    using t p by (simp add: parsePatch_def startsWith_def)
qed

text \<open>
  Claim C6, amended. \<open>parsePatch\<close> is total: every line has a result and none an error.
  The result is \<^verbatim>\<open>null\<close> exactly when the trimmed line is empty, starts with \<^verbatim>\<open>//\<close>, fails to
  parse as JSON, or parses to the JSON value \<^verbatim>\<open>null\<close>. A line with the result \<^verbatim>\<open>null\<close>
  changes neither the running tree nor the component state, and raises no error.
\<close>

theorem parsePatch_not_a_patch:
  "(parsePatch line = JNull \<longleftrightarrow>
      trim line = [] \<or> startsWith (trim line) (str ''//'') \<or> JSON_parse (trim line) = None
      \<or> JSON_parse (trim line) = Some JNull)
   \<and> (parsePatch line = JNull \<longrightarrow>
        processLine (currentTree, d) line = Inr (currentTree, d)
        \<and> forLines (currentTree, d) [line] = (None, currentTree, d))"
proof (intro conjI impI)
  show "parsePatch line = JNull \<longleftrightarrow>
      trim line = [] \<or> startsWith (trim line) (str ''//'') \<or> JSON_parse (trim line) = None
      \<or> JSON_parse (trim line) = Some JNull"
    by (rule parsePatch_null_iff)
next
  assume "parsePatch line = JNull"
  then show "processLine (currentTree, d) line = Inr (currentTree, d)"
    by (rule processLine_not_a_patch)
next
  assume "parsePatch line = JNull"
  then show "forLines (currentTree, d) [line] = (None, currentTree, d)"
    by (simp add: processLine_not_a_patch)
qed

text \<open>
  The amended claim at the two lines of the specification: one that is not JSON and one
  of white space only.
\<close>

theorem parsePatch_not_a_patch_witness:
  "parsePatch (str ''not json {'') = JNull
   \<and> parsePatch (str ''   '') = JNull
   \<and> processLine (emptyTree, idleSession) (str ''not json {'') = Inr (emptyTree, idleSession)"
proof -
  have t: "trim (str ''not json {'') = str ''not json {''"
    by (simp add: trim_def trimStart_def isWhiteSpace_def)
  have p: "JSON_parse (str ''not json {'') = None"
    by code_simp
  have w: "trim (str ''   '') = []"
    by (simp add: trim_def trimStart_def isWhiteSpace_def)
  show ?thesis
    using parsePatch_not_a_patch [of "str ''not json {''" emptyTree idleSession]
          parsePatch_not_a_patch [of "str ''   ''" emptyTree idleSession] t p w
    by simp
qed

section \<open>The tree reducer and the preview: forward references\<close>

lemma trim_setRootLine: "trim setRootLine = setRootLine"
  by (simp add: setRootLine_def trim_def trimStart_def isWhiteSpace_def)

lemma JSON_parse_setRootLine:
  "JSON_parse setRootLine = Some (JObj [(str ''op'', JStr (str ''set'')),
      (str ''path'', JStr (str ''/root'')), (str ''value'', JStr (str ''form''))])"
  unfolding setRootLine_def by code_simp

lemma parsePatch_setRootLine:
  "parsePatch setRootLine = JObj [(str ''op'', JStr (str ''set'')),
      (str ''path'', JStr (str ''/root'')), (str ''value'', JStr (str ''form''))]"
proof -
  have "\<not> startsWith setRootLine (str ''//'')" "setRootLine \<noteq> []"
    by (simp_all add: setRootLine_def startsWith_def)
  then show ?thesis
    by (simp add: parsePatch_def trim_setRootLine JSON_parse_setRootLine)
qed

lemma trim_addFormLine: "trim addFormLine = addFormLine"
  by (simp add: addFormLine_def trim_def trimStart_def isWhiteSpace_def)

lemma JSON_parse_addFormLine:
  "JSON_parse addFormLine = Some (JObj [(str ''op'', JStr (str ''add'')),
      (str ''path'', JStr (str ''/elements/form'')), (str ''value'', formElement)])"
  unfolding addFormLine_def formElement_def by code_simp

lemma parsePatch_addFormLine:
  "parsePatch addFormLine = JObj [(str ''op'', JStr (str ''add'')),
      (str ''path'', JStr (str ''/elements/form'')), (str ''value'', formElement)]"
proof -
  have "\<not> startsWith addFormLine (str ''//'')" "addFormLine \<noteq> []"
    by (simp_all add: addFormLine_def startsWith_def)
  then show ?thesis
    by (simp add: parsePatch_def trim_addFormLine JSON_parse_addFormLine)
qed

lemma applyPatch_setRootLine:
  "applyPatch t (parsePatch setRootLine) = Inr (t\<lparr>root := JStr (str ''form'')\<rparr>)"
  unfolding parsePatch_setRootLine
  by (subst applyPatch_string_path [where p = "str ''/root''"]) (simp_all add: getField_def)

lemma applyPatch_addFormLine:
  "applyPatch t (parsePatch addFormLine)
     = Inr (t\<lparr>elements := (elements t)(str ''form'' \<mapsto> formElement)\<rparr>)"
  unfolding parsePatch_addFormLine
  by (subst applyPatch_string_path [where p = "str ''/elements/form''"])
     (simp_all add: getField_def startsWith_def first_def)

text \<open>
  Claim C9. Parsing and applying the two lines of the example to the empty tree gives a
  tree with the root \<^verbatim>\<open>form\<close> and the element \<^verbatim>\<open>form\<close> with the children \<^verbatim>\<open>["name"]\<close>, and no
  element \<^verbatim>\<open>name\<close>. The preview of that tree looks the child up, finds \<^verbatim>\<open>undefined\<close>, drops
  it and renders the card without children and without an error.
\<close>

theorem forward_reference_tolerated:
  "applyPatch emptyTree (parsePatch setRootLine) = Inr (emptyTree\<lparr>root := JStr (str ''form'')\<rparr>)
   \<and> applyPatch (emptyTree\<lparr>root := JStr (str ''form'')\<rparr>) (parsePatch addFormLine)
       = Inr \<lparr>root = JStr (str ''form''), elements = [str ''form'' \<mapsto> formElement]\<rparr>
   \<and> getField formElement (str ''children'') = JArr [JStr (str ''name'')]
   \<and> elements \<lparr>root = JStr (str ''form''), elements = [str ''form'' \<mapsto> formElement]\<rparr>
        (str ''name'') = None
   \<and> lookupAll ns \<lparr>root = JStr (str ''form''), elements = [str ''form'' \<mapsto> formElement]\<rparr>
        [JStr (str ''name'')] = Inr [JUndefined]
   \<and> renderPreview ns loading
        (Some \<lparr>root = JStr (str ''form''), elements = [str ''form'' \<mapsto> formElement]\<rparr>)
       = Inr (Card JUndefined [])"
proof -
  have g: "getField formElement (str ''children'') = JArr [JStr (str ''name'')]"
    "getField formElement (str ''props'') = JObj []"
    by (simp_all add: formElement_def getField_def)
  have tr: "truthy formElement" by (simp add: formElement_def)
  show ?thesis
    using g tr
    by (simp add: applyPatch_setRootLine applyPatch_addFormLine emptyTree_def
          renderPreview_def elementAt_def nullish_def getField_def)
qed

section \<open>The stream session: supersession and cancellation\<close>

lemma processLine_console:
  "processLine (ct, d) line = Inr (ct', d') \<Longrightarrow> console d' = console d"
  by (auto simp: processLine_def Let_def split: if_splits sum.splits)

lemma forLines_console:
  "forLines (ct, d) ls = (err, ct', d') \<Longrightarrow> console d' = console d"
proof (induction ls arbitrary: ct d)
  case Nil
  then show ?case by simp
next
  case (Cons l ls)
  show ?case
  proof (cases "processLine (ct, d) l")
    case (Inl e)
    then show ?thesis using Cons.prems by simp
  next
    case (Inr st)
    obtain ct1 d1 where st: "st = (ct1, d1)" by (cases st)
    have "console d1 = console d" using Inr st processLine_console by blast
    moreover have "console d' = console d1" using Cons.IH [of ct1 d1] Cons.prems Inr st by simp
    ultimately show ?thesis by simp
  qed
qed

lemma startSession_console: "console (startSession d) = console d"
  by (simp add: startSession_def abortCurrent_def Let_def split: option.splits)

text \<open>
  Claim C3 says that a start request arriving while a session is active cancels that
  session and is served. In \<open>sessionA\<close> a session is loading and a prompt is entered; the
  call of \<open>handleSubmit\<close> returns at its guard: the controller of the running session is
  not aborted, the request is dropped, and the state with the line of the running session
  stays as it is.
\<close>

theorem handleSubmit_while_loading_counterexample:
  "isLoading sessionA \<and> trim (userPrompt sessionA) \<noteq> []
   \<and> abortRef sessionA = Some 0 \<and> \<not> controllers sessionA ! 0
   \<and> handleSubmit responseB sessionA = sessionA
   \<and> \<not> controllers (handleSubmit responseB sessionA) ! 0
   \<and> streamLines (handleSubmit responseB sessionA)
       = [str ''{\"op\":\"set\",\"path\":\"/root\",\"value\":\"a\"}'']"
  by (simp add: handleSubmit_def sessionA_def trim_def trimStart_def isWhiteSpace_def)

text \<open>
  Claim C3, amended. While a session is loading, \<open>handleSubmit\<close> does nothing: the
  request is dropped and no cancellation fires. When no session is loading and the prompt
  is not blank, \<open>handleSubmit\<close> first aborts the controller of the previous request, if
  there is one, installs a new controller that is not aborted, and clears the lines and
  the tree; the state it ends in does not depend on the lines and the tree that were
  there before.
\<close>

theorem handleSubmit_supersession:
  "(isLoading d \<longrightarrow> handleSubmit net d = d)
   \<and> (\<not> isLoading d \<and> trim (userPrompt d) \<noteq> [] \<longrightarrow>
        handleSubmit net d = catchFinally (tryBlock net (startSession d))
        \<and> (\<forall>c. abortRef d = Some c \<and> c < length (controllers d)
               \<longrightarrow> controllers (startSession d) ! c)
        \<and> abortRef (startSession d) = Some (length (controllers d))
        \<and> \<not> controllers (startSession d) ! length (controllers d)
        \<and> streamLines (startSession d) = []
        \<and> tree (startSession d) = Some emptyTree
        \<and> handleSubmit net (d\<lparr>streamLines := ls, tree := tr\<rparr>) = handleSubmit net d)"
  by (auto simp: handleSubmit_def startSession_def abortCurrent_def Let_def nth_append
           split: option.splits)

text \<open>
  The amended claim at the loading session and at the same component when idle.
\<close>

theorem handleSubmit_supersession_witness:
  "isLoading sessionA \<and> handleSubmit responseB sessionA = sessionA
   \<and> \<not> isLoading idleSession \<and> trim (userPrompt idleSession) \<noteq> []
   \<and> abortRef idleSession = Some 0 \<and> controllers (startSession idleSession) ! 0
   \<and> abortRef (startSession idleSession) = Some 1
   \<and> \<not> controllers (startSession idleSession) ! 1
   \<and> streamLines (startSession idleSession) = []"
  using handleSubmit_supersession [of sessionA responseB]
        handleSubmit_supersession [of idleSession responseB]
  by (simp add: idleSession_def sessionA_def trim_def trimStart_def isWhiteSpace_def)

lemma catchFinally_abort:
  "error_name e = str ''AbortError'' \<Longrightarrow> catchFinally (Some e, d) = d\<lparr>isLoading := False\<rparr>"
  by (simp add: catchFinally_def)

lemma catchFinally_failure:
  "error_name e \<noteq> str ''AbortError''
   \<Longrightarrow> catchFinally (Some e, d) = d\<lparr>console := console d @ [e], isLoading := False\<rparr>"
  by (simp add: catchFinally_def)

lemma tryBlock_read_rejects:
  assumes "200 \<le> status" "status \<le> 299"
    and "forLines (emptyTree, d) (fst (frameLines [] chunks)) = (None, ct, d')"
  shows "tryBlock (Response status (Some (chunks, ReadRejects e))) d = (Some e, d')"
  using assms by (simp add: tryBlock_def readLoop_frameLines)

text \<open>
  Claim C8. Let a session start, and let the lines of the chunks delivered so far be
  processed, leaving the component in state \<open>d'\<close>. If the next read rejects with an
  AbortError, the session ends in \<open>d'\<close> with only the loading flag cleared: nothing is
  written to the console, and the tree and the lines published before the abort stay.
  The same holds when \<^verbatim>\<open>fetch\<close> itself rejects with an AbortError. If the read rejects
  with any other error, that error is written to the console. \<open>stopGeneration\<close>, which
  fires the abort, leaves the tree, the lines and the console alone.
\<close>

theorem abort_is_not_a_failure:
  assumes "trim (userPrompt d) \<noteq> []" and "\<not> isLoading d"
    and "200 \<le> status" and "status \<le> 299"
    and "forLines (emptyTree, startSession d) (fst (frameLines [] chunks)) = (None, ct, d')"
  shows "(error_name e = str ''AbortError'' \<longrightarrow>
            handleSubmit (Response status (Some (chunks, ReadRejects e))) d
              = d'\<lparr>isLoading := False\<rparr>
            \<and> handleSubmit (FetchRejects e) d = (startSession d)\<lparr>isLoading := False\<rparr>)
       \<and> (error_name e \<noteq> str ''AbortError'' \<longrightarrow>
            handleSubmit (Response status (Some (chunks, ReadRejects e))) d
              = d'\<lparr>console := console d' @ [e], isLoading := False\<rparr>)
       \<and> console d' = console d
       \<and> tree (stopGeneration d') = tree d'
       \<and> streamLines (stopGeneration d') = streamLines d'
       \<and> console (stopGeneration d') = console d'"
proof -
  have tb: "tryBlock (Response status (Some (chunks, ReadRejects e))) (startSession d) = (Some e, d')"
    using assms(3-5) by (rule tryBlock_read_rejects)
  have hs: "handleSubmit (Response status (Some (chunks, ReadRejects e))) d = catchFinally (Some e, d')"
    using assms(1,2) tb by (simp add: handleSubmit_def)
  have hf: "handleSubmit (FetchRejects e) d = catchFinally (Some e, startSession d)"
    using assms(1,2) by (simp add: handleSubmit_def tryBlock_def)
  have c: "console d' = console d"
    using forLines_console [OF assms(5)] startSession_console by simp
  have sg: "tree (stopGeneration d') = tree d'" "streamLines (stopGeneration d') = streamLines d'"
       "console (stopGeneration d') = console d'"
    by (simp_all add: stopGeneration_def abortCurrent_def Let_def split: option.splits)
  show ?thesis
    using hs hf c sg by (simp add: catchFinally_abort catchFinally_failure)
qed

lemma forLines_addFormLine:
  "forLines (emptyTree, startSession idleSession) [addFormLine]
     = (None, \<lparr>root = JStr [], elements = [str ''form'' \<mapsto> formElement]\<rparr>,
        (startSession idleSession)
          \<lparr>tree := Some \<lparr>root = JStr [], elements = [str ''form'' \<mapsto> formElement]\<rparr>,
           streamLines := [addFormLine]\<rparr>)"
proof -
  have tr: "truthy (parsePatch addFormLine)" by (simp add: parsePatch_addFormLine)
  have sl: "streamLines (startSession idleSession) = []" by (simp add: startSession_def Let_def)
  show ?thesis
    using tr sl by (simp add: processLine_def applyPatch_addFormLine trim_addFormLine emptyTree_def)
qed

lemma split_on_line: "sep \<notin> set l \<Longrightarrow> split_on sep (l @ sep # r) = l # split_on sep r"
  by (induction l) auto

lemma frameLines_one_line:
  assumes "NEWLINE \<notin> set l" and "NEWLINE \<notin> set r" and "concat chunks = l @ NEWLINE # r"
  shows "frameLines [] chunks = ([l], r)"
  using assms frameLines_concat [of "[]" chunks]
  by (simp add: split_on_line split_on_no_sep)

lemma frameLines_addFormLine:
  "frameLines [] [take 40 addFormLine, drop 40 addFormLine @ [NEWLINE] @ str ''{\"op\"'']
     = ([addFormLine], str ''{\"op\"'')"
proof (rule frameLines_one_line)
  show "NEWLINE \<notin> set addFormLine" by (simp add: addFormLine_def)
  show "NEWLINE \<notin> set (str ''{\"op\"'')" by simp
  have "take 40 addFormLine @ drop 40 addFormLine = addFormLine" by (rule append_take_drop_id)
  then show "concat [take 40 addFormLine, drop 40 addFormLine @ [NEWLINE] @ str ''{\"op\"'']
        = addFormLine @ NEWLINE # str ''{\"op\"''"
    by (simp del: append_take_drop_id)
qed

text \<open>
  The claim at a session that is aborted after one complete line, delivered in two
  chunks, and the start of another.
\<close>

theorem abort_is_not_a_failure_witness:
  "handleSubmit (Response 200
      (Some ([take 40 addFormLine, drop 40 addFormLine @ [NEWLINE] @ str ''{\"op\"''],
             ReadRejects AbortError))) idleSession
   = (startSession idleSession)
       \<lparr>tree := Some \<lparr>root = JStr [], elements = [str ''form'' \<mapsto> formElement]\<rparr>,
        streamLines := [addFormLine], isLoading := False\<rparr>
   \<and> console (handleSubmit (Response 200
      (Some ([take 40 addFormLine, drop 40 addFormLine @ [NEWLINE] @ str ''{\"op\"''],
             ReadRejects AbortError))) idleSession) = []
   \<and> console (handleSubmit (Response 200
      (Some ([take 40 addFormLine, drop 40 addFormLine @ [NEWLINE] @ str ''{\"op\"''],
             ReadRejects TypeError))) idleSession) = [TypeError]"
proof -
  have g: "trim (userPrompt idleSession) \<noteq> []" "\<not> isLoading idleSession"
    by (simp_all add: idleSession_def sessionA_def trim_def trimStart_def isWhiteSpace_def)
  have f: "forLines (emptyTree, startSession idleSession)
             (fst (frameLines [] [take 40 addFormLine,
                                  drop 40 addFormLine @ [NEWLINE] @ str ''{\"op\"'']))
           = (None, \<lparr>root = JStr [], elements = [str ''form'' \<mapsto> formElement]\<rparr>,
              (startSession idleSession)
                \<lparr>tree := Some \<lparr>root = JStr [], elements = [str ''form'' \<mapsto> formElement]\<rparr>,
                 streamLines := [addFormLine]\<rparr>)"
    by (simp only: frameLines_addFormLine fst_conv forLines_addFormLine)
  have c: "console idleSession = []" by (simp add: idleSession_def sessionA_def)
  have n: "(200::nat) \<le> 200" "(200::nat) \<le> 299" by simp_all
  show ?thesis
    using abort_is_not_a_failure [OF g n f, of AbortError]
          abort_is_not_a_failure [OF g n f, of TypeError] c
    by simp
qed

section \<open>The tree reducer: copy on write\<close>

text \<open>
  A read does not depend on the objects created after the object it reads and its
  prototypes, nor on the number of steps allowed beyond the length of the chain.
\<close>

lemma lookup_unchanged:
  assumes "proto_chain h n a" and "n \<le> m"
    and "\<And>b. b < next_addr h \<Longrightarrow> cells h' b = cells h b \<and> protos h' b = protos h b"
  shows "lookup h' m a name = lookup h n a name"
  using assms(1,2)
proof (induction n arbitrary: a m)
  case 0
  then show ?case by simp
next
  case (Suc n)
  from Suc.prems(2) obtain k where m: "m = Suc k" and nk: "n \<le> k"
    by (cases m) auto
  from Suc.prems(1) have a: "a < next_addr h" by simp
  have same: "cells h' a = cells h a" "protos h' a = protos h a"
    using assms(3) [OF a] by simp_all
  show ?case
  proof (cases "cells h a name")
    case (Some v)
    then show ?thesis by (simp add: m same)
  next
    case None
    show ?thesis
    proof (cases "protos h a")
      case (Prototype q)
      with Suc.prems(1) have "proto_chain h n q" by simp
      then have "lookup h' k q name = lookup h n q name"
        using nk by (rule Suc.IH)
      then show ?thesis
        using Prototype None by (simp add: m same)
    qed (simp_all add: m same None)
  qed
qed

lemma hfield_unchanged:
  assumes "\<forall>a. v = HRef a \<longrightarrow> is_object h a"
    and "next_addr h \<le> next_addr h'"
    and "\<And>b. b < next_addr h \<Longrightarrow> cells h' b = cells h b \<and> protos h' b = protos h b"
  shows "hfield h' v name = hfield h v name"
proof (cases v)
  case (HRef a)
  then have "proto_chain h (next_addr h) a"
    using assms(1) by (simp add: is_object_def)
  then have "lookup h' (next_addr h') a name = lookup h (next_addr h) a name"
    using assms(2,3) by (rule lookup_unchanged)
  then show ?thesis
    using HRef by (simp add: hfield_def)
qed (simp_all add: hfield_def)

lemma is_object_allocated: "is_object h a \<Longrightarrow> a < next_addr h"
  by (cases "next_addr h") (simp_all add: is_object_def)

text \<open>An object whose prototype is \<^verbatim>\<open>Object.prototype\<close>: a read finds its own properties.\<close>

lemma is_object_plain:
  "a < next_addr h \<Longrightarrow> protos h a = ObjectPrototype \<Longrightarrow> is_object h a"
  by (cases "next_addr h") (simp_all add: is_object_def)

lemma hfield_plain:
  "a < next_addr h \<Longrightarrow> protos h a = ObjectPrototype \<Longrightarrow>
   hfield h (HRef a) name = (case cells h a name of None \<Rightarrow> HUndefined | Some v \<Rightarrow> v)"
  by (cases "next_addr h") (simp_all add: hfield_def split: option.splits)

text \<open>The result of \<open>applyPatch_heap\<close> on a tree of the store, in closed form.\<close>

lemma applyPatch_heap_result:
  assumes "\<forall>a. patch = HRef a \<longrightarrow> is_object h a"
    and "is_object h treeRef"
    and "hfield h (HRef treeRef) (str ''elements'') = HRef e"
    and "e < next_addr h"
  shows "applyPatch_heap h treeRef patch =
     (if hnullish patch then Inl TypeError
      else if hfield h patch (str ''path'') = HStr (str ''/root'') then
        Inr (next_addr h,
             setField (copied h treeRef e) (next_addr h) (str ''root'')
               (hfield h patch (str ''value'')))
      else
        (case hfield h patch (str ''path'') of
           HStr path \<Rightarrow>
             if startsWith path (str ''/elements/'') then
               (case first (split_on SLASH (drop (length (str ''/elements/'')) path)) of
                  None \<Rightarrow> Inr (next_addr h, copied h treeRef e)
                | Some key \<Rightarrow>
                    if key \<noteq> [] \<and> (hfield h patch (str ''op'') = HStr (str ''set'')
                                    \<or> hfield h patch (str ''op'') = HStr (str ''add''))
                    then
                      if key = str ''__proto__'' \<and> cells h e key = None
                      then Inr (next_addr h,
                                setPrototype (copied h treeRef e) (next_addr h + 1)
                                  (hfield h patch (str ''value'')))
                      else Inr (next_addr h,
                                setField (copied h treeRef e) (next_addr h + 1) key
                                  (hfield h patch (str ''value'')))
                    else Inr (next_addr h, copied h treeRef e))
             else Inr (next_addr h, copied h treeRef e)
         | _ \<Rightarrow> Inl TypeError))"
proof -
  define h1 where "h1 = snd (alloc (spread h (HRef treeRef)) h)"
  define h2 where "h2 = snd (alloc (spread h1 (hfield h1 (HRef treeRef) (str ''elements''))) h1)"
  define h3 where "h3 = setField h2 (next_addr h) (str ''elements'') (HRef (next_addr h + 1))"
  have t: "treeRef < next_addr h"
    using assms(2) by (rule is_object_allocated)
  have n1: "next_addr h1 = next_addr h + 1" by (simp add: h1_def alloc_def)
  have c1: "cells h1 = (cells h)(next_addr h := cells h treeRef)"
    by (simp add: h1_def alloc_def spread_def)
  have p1: "protos h1 = (protos h)(next_addr h := ObjectPrototype)"
    by (simp add: h1_def alloc_def)
  have "hfield h1 (HRef treeRef) (str ''elements'') = hfield h (HRef treeRef) (str ''elements'')"
    using assms(2) by (intro hfield_unchanged) (simp_all add: n1 c1 p1)
  then have el1: "hfield h1 (HRef treeRef) (str ''elements'') = HRef e"
    using assms(3) by simp
  have c2: "cells h2 = (cells h1)(next_addr h + 1 := cells h e)"
    using assms(4) el1 by (simp add: h2_def alloc_def spread_def n1 c1)
  have p2: "protos h2 = (protos h1)(next_addr h + 1 := ObjectPrototype)"
    by (simp add: h2_def alloc_def n1)
  have n2: "next_addr h2 = next_addr h + 2" by (simp add: h2_def alloc_def n1)
  have "cells h3 = cells (copied h treeRef e)"
    by (auto simp: h3_def setField_def copied_def c2 c1 fun_eq_iff)
  moreover have "protos h3 = protos (copied h treeRef e)"
    by (simp add: h3_def setField_def copied_def p2 p1)
  moreover have "next_addr h3 = next_addr (copied h treeRef e)"
    by (simp add: h3_def setField_def copied_def n2)
  ultimately have h3: "h3 = copied h treeRef e"
    by (intro heap.equality) simp_all
  have pf: "hfield (copied h treeRef e) patch name = hfield h patch name" for name
    using assms(1) by (intro hfield_unchanged) (simp_all add: copied_def)
  have ce: "cells (copied h treeRef e) (next_addr h + 1) = cells h e"
    by (simp add: copied_def)
  have a1: "alloc (spread h (HRef treeRef)) h = (next_addr h, h1)"
    by (simp add: h1_def alloc_def)
  have a2: "alloc (spread h1 (hfield h1 (HRef treeRef) (str ''elements''))) h1
              = (next_addr h + 1, h2)"
    by (simp add: h2_def alloc_def n1)
  show ?thesis
    by (simp only: applyPatch_heap_def Let_def a1 a2 prod.case h3_def [symmetric] h3 pf ce)
qed

text \<open>
  The store model computes what the first model computes: on a tree of the store that
  an object literal created and a patch of the store, it fails when \<open>applyPatch\<close> fails,
  and otherwise its result holds the tree \<open>applyPatch\<close> returns. The two models are
  compared on the root and the own entries of the elements, which is what the first
  model holds of a tree.
\<close>

lemma applyPatch_heap_refines:
  assumes "\<forall>a. patch = HRef a \<longrightarrow> is_object h a"
    and "treeRef < next_addr h"
    and "protos h treeRef = ObjectPrototype"
    and "cells h treeRef (str ''elements'') = Some (HRef e)"
    and "e < next_addr h"
    and rep_str: "\<And>v s. rep v = JStr s \<longleftrightarrow> v = HStr s"
    and rep_null: "\<And>v. nullish (rep v) \<longleftrightarrow> hnullish v"
    and rep_patch: "\<And>name. getField (rep patch) name = rep (hfield h patch name)"
  shows "applyPatch (absTree rep h treeRef) (rep patch) =
           (case applyPatch_heap h treeRef patch of
              Inl err \<Rightarrow> Inl err
            | Inr (a, h') \<Rightarrow> Inr (absTree rep h' a))"
proof -
  have obj: "is_object h treeRef"
    using assms(2,3) by (rule is_object_plain)
  have el: "hfield h (HRef treeRef) (str ''elements'') = HRef e"
    using assms(2-4) by (simp add: hfield_plain)
  have old: "absTree rep h treeRef =
      \<lparr>root = rep (case cells h treeRef (str ''root'') of None \<Rightarrow> HUndefined | Some v \<Rightarrow> v),
       elements = (\<lambda>k. map_option rep (cells h e k))\<rparr>"
    using assms(2-4) by (simp add: absTree_def hfield_plain spread_def)
  have A: "absTree rep (copied h treeRef e) (next_addr h) = absTree rep h treeRef"
    unfolding old
    by (simp add: absTree_def hfield_plain copied_def spread_def)
  have B: "absTree rep (setField (copied h treeRef e) (next_addr h) (str ''root'') v) (next_addr h)
             = (absTree rep h treeRef)\<lparr>root := rep v\<rparr>" for v
    unfolding old
    by (simp add: absTree_def hfield_plain copied_def setField_def spread_def)
  have C: "absTree rep (setField (copied h treeRef e) (next_addr h + 1) key v) (next_addr h)
             = (absTree rep h treeRef)\<lparr>elements := (elements (absTree rep h treeRef))(key \<mapsto> rep v)\<rparr>"
    for key v
    unfolding old
    by (auto simp: absTree_def hfield_plain copied_def setField_def spread_def fun_eq_iff)
  have D: "absTree rep (setPrototype (copied h treeRef e) (next_addr h + 1) v) (next_addr h)
             = absTree rep h treeRef" for v
    unfolding old
    by (cases v) (simp_all add: absTree_def hfield_plain copied_def setPrototype_def spread_def)
  have E: "elements (absTree rep h treeRef) key = None \<longleftrightarrow> cells h e key = None" for key
    unfolding old by simp
  have S: "rep (hfield h patch name) = JStr s \<longleftrightarrow> hfield h patch name = HStr s" for name s
    by (rule rep_str)
  show ?thesis
  proof (cases "\<exists>p. hfield h patch (str ''path'') = HStr p")
    case True
    then obtain p where p: "hfield h patch (str ''path'') = HStr p" by blast
    have gp: "getField (rep patch) (str ''path'') = JStr p"
      using rep_patch [of "str ''path''"] p rep_str [of "HStr p" p] by simp
    have nn: "\<not> hnullish patch" using p by (auto simp: hnullish_def hfield_def)
    have op: "getField (rep patch) (str ''op'') = JStr s \<longleftrightarrow> hfield h patch (str ''op'') = HStr s" for s
      using rep_patch [of "str ''op''"] S [of "str ''op''" s] by simp
    have vl: "getField (rep patch) (str ''value'') = rep (hfield h patch (str ''value''))"
      by (rule rep_patch)
    show ?thesis
      unfolding applyPatch_string_path [OF gp] applyPatch_heap_result [OF assms(1) obj el assms(5)]
      using nn p op [of "str ''set''"] op [of "str ''add''"] vl
      by (auto simp: A B [simplified] C [simplified] D [simplified] E split: option.splits)
  next
    case False
    then have np: "\<forall>q. getField (rep patch) (str ''path'') \<noteq> JStr q"
      using rep_patch [of "str ''path''"] S [of "str ''path''"] by auto
    have "applyPatch_heap h treeRef patch = Inl TypeError"
      unfolding applyPatch_heap_result [OF assms(1) obj el assms(5)]
      using False by (cases "hfield h patch (str ''path'')") auto
    then show ?thesis
      using applyPatch_not_string_path [OF np] by simp
  qed
qed

lemma applyPatch_heap_refines_example:
  "applyPatch (absTree repA heapA 0) (repA (HRef 3)) =
     (case applyPatch_heap heapA 0 (HRef 3) of
        Inl err \<Rightarrow> Inl err
      | Inr (a, h') \<Rightarrow> Inr (absTree repA h' a))"
proof (rule applyPatch_heap_refines)
  show "\<forall>a. HRef 3 = HRef a \<longrightarrow> is_object heapA a"
    by (simp add: is_object_plain heapA_def)
  show "0 < next_addr heapA" by (simp add: heapA_def)
  show "protos heapA 0 = ObjectPrototype" by (simp add: heapA_def)
  show "cells heapA 0 (str ''elements'') = Some (HRef 1)" by (simp add: heapA_def)
  show "1 < next_addr heapA" by (simp add: heapA_def)
  show "repA v = JStr s \<longleftrightarrow> v = HStr s" for v s
    by (cases v) (auto simp: repA_def)
  show "nullish (repA v) \<longleftrightarrow> hnullish v" for v
    by (cases v) (auto simp: repA_def nullish_def hnullish_def)
  show "getField (repA (HRef 3)) name = repA (hfield heapA (HRef 3) name)" for name
    by (simp add: repA_def getField_def hfield_plain heapA_def)
qed

text \<open>
  Claim C7. Let the tree at \<open>treeRef\<close> and the patch be objects of the store, let the
  elements of the tree be the object at \<open>e\<close>, and let the patch have a string as its path.
  Then \<open>applyPatch_heap\<close> returns, and
  \<^item> every object that was in the store is unchanged, in its properties and in its
    prototype, so the input tree, its elements and every element are as before;
  \<^item> the result is a new object, and its \<^verbatim>\<open>elements\<close> is another new object;
  \<^item> every entry of the new elements holds the very value, hence the same reference, that
    the entry of the input holds, except the entry the operation writes, which holds
    the value of the patch;
  \<^item> an operation on the key \<^verbatim>\<open>__proto__\<close>, where the input has no entry of that name, writes
    no entry: all entries are shared with the input, and the value of the patch, if it
    is an object or \<^verbatim>\<open>null\<close>, is the prototype of the new elements;
  \<^item> the root is that of the input unless the path is \<^verbatim>\<open>/root\<close>.
\<close>

theorem applyPatch_heap_copy_on_write:
  assumes "hfield h patch (str ''path'') = HStr p"
    and "\<forall>a. patch = HRef a \<longrightarrow> is_object h a"
    and "is_object h treeRef"
    and "hfield h (HRef treeRef) (str ''elements'') = HRef e"
    and "e < next_addr h"
  shows "\<exists>h'. applyPatch_heap h treeRef patch = Inr (next_addr h, h')
         \<and> next_addr h' = next_addr h + 2
         \<and> (\<forall>a. a < next_addr h \<longrightarrow> cells h' a = cells h a \<and> protos h' a = protos h a)
         \<and> cells h' (next_addr h) (str ''elements'') = Some (HRef (next_addr h + 1))
         \<and> protos h' (next_addr h) = ObjectPrototype
         \<and> (\<forall>k. cells h' (next_addr h + 1) k =
                 (if p \<noteq> str ''/root'' \<and> startsWith p (str ''/elements/'')
                     \<and> first (split_on SLASH (drop (length (str ''/elements/'')) p)) = Some k
                     \<and> k \<noteq> []
                     \<and> (hfield h patch (str ''op'') = HStr (str ''set'')
                          \<or> hfield h patch (str ''op'') = HStr (str ''add''))
                     \<and> (k \<noteq> str ''__proto__'' \<or> cells h e k \<noteq> None)
                  then Some (hfield h patch (str ''value''))
                  else cells h e k))
         \<and> protos h' (next_addr h + 1) =
               (if p \<noteq> str ''/root'' \<and> startsWith p (str ''/elements/'')
                   \<and> first (split_on SLASH (drop (length (str ''/elements/'')) p))
                        = Some (str ''__proto__'')
                   \<and> (hfield h patch (str ''op'') = HStr (str ''set'')
                        \<or> hfield h patch (str ''op'') = HStr (str ''add''))
                   \<and> cells h e (str ''__proto__'') = None
                then (case hfield h patch (str ''value'') of
                        HRef q \<Rightarrow> Prototype q
                      | HNull \<Rightarrow> NullPrototype
                      | _ \<Rightarrow> ObjectPrototype)
                else ObjectPrototype)
         \<and> (\<forall>n. n \<noteq> str ''elements'' \<and> n \<noteq> str ''root''
                \<longrightarrow> cells h' (next_addr h) n = cells h treeRef n)
         \<and> cells h' (next_addr h) (str ''root'') =
               (if p = str ''/root'' then Some (hfield h patch (str ''value''))
                else cells h treeRef (str ''root''))"
proof -
  have nn: "\<not> hnullish patch"
    using assms(1) by (auto simp: hnullish_def hfield_def)
  show ?thesis
    unfolding applyPatch_heap_result [OF assms(2-5)]
    using nn assms(1)
    by (auto simp: setField_def setPrototype_def copied_def split: option.splits hval.splits)
qed

text \<open>
  The claim at the store \<open>heapA\<close>: the new elements at address 6 share the element at 2
  with the input and refer to the element at 4 of the patch. And at the store \<open>heapP\<close>,
  whose patch has the key \<^verbatim>\<open>__proto__\<close>: the new elements at address 7 have no entry, and
  the element at 3 is their prototype.
\<close>

theorem applyPatch_heap_copy_on_write_witness:
  "(\<exists>h'. applyPatch_heap heapA 0 (HRef 3) = Inr (5, h')
        \<and> next_addr h' = 7
        \<and> cells h' 0 = cells heapA 0
        \<and> cells h' 1 = cells heapA 1
        \<and> cells h' 2 = cells heapA 2
        \<and> cells h' 5 (str ''elements'') = Some (HRef 6)
        \<and> cells h' 5 (str ''root'') = Some (HStr (str ''form''))
        \<and> cells h' 6 (str ''form'') = Some (HRef 2)
        \<and> cells h' 6 (str ''name'') = Some (HRef 4)
        \<and> protos h' 6 = ObjectPrototype)
   \<and> (\<exists>h'. applyPatch_heap heapP 0 (HRef 2) = Inr (6, h')
        \<and> next_addr h' = 8
        \<and> cells h' 0 = cells heapP 0
        \<and> cells h' 1 = cells heapP 1
        \<and> protos h' 1 = ObjectPrototype
        \<and> cells h' 6 (str ''elements'') = Some (HRef 7)
        \<and> cells h' 7 (str ''__proto__'') = None
        \<and> protos h' 7 = Prototype 3)"
proof (rule conjI)
  have hyp: "hfield heapA (HRef 3) (str ''path'') = HStr (str ''/elements/name'')"
    "\<forall>a. HRef 3 = HRef a \<longrightarrow> is_object heapA a"
    "is_object heapA 0"
    "hfield heapA (HRef 0) (str ''elements'') = HRef 1"
    "1 < next_addr heapA"
    by (simp_all add: heapA_def hfield_plain is_object_plain)
  obtain h' where r: "applyPatch_heap heapA 0 (HRef 3) = Inr (next_addr heapA, h')"
    and n: "next_addr h' = next_addr heapA + 2"
    and old: "\<forall>a. a < next_addr heapA \<longrightarrow> cells h' a = cells heapA a \<and> protos h' a = protos heapA a"
    and el: "cells h' (next_addr heapA) (str ''elements'') = Some (HRef (next_addr heapA + 1))"
    and sh: "\<forall>k. cells h' (next_addr heapA + 1) k =
                 (if str ''/elements/name'' \<noteq> str ''/root''
                     \<and> startsWith (str ''/elements/name'') (str ''/elements/'')
                     \<and> first (split_on SLASH (drop (length (str ''/elements/''))
                                                   (str ''/elements/name''))) = Some k
                     \<and> k \<noteq> []
                     \<and> (hfield heapA (HRef 3) (str ''op'') = HStr (str ''set'')
                          \<or> hfield heapA (HRef 3) (str ''op'') = HStr (str ''add''))
                     \<and> (k \<noteq> str ''__proto__'' \<or> cells heapA 1 k \<noteq> None)
                  then Some (hfield heapA (HRef 3) (str ''value''))
                  else cells heapA 1 k)"
    and pr: "protos h' (next_addr heapA + 1) =
               (if str ''/elements/name'' \<noteq> str ''/root''
                   \<and> startsWith (str ''/elements/name'') (str ''/elements/'')
                   \<and> first (split_on SLASH (drop (length (str ''/elements/''))
                                                 (str ''/elements/name'')))
                        = Some (str ''__proto__'')
                   \<and> (hfield heapA (HRef 3) (str ''op'') = HStr (str ''set'')
                        \<or> hfield heapA (HRef 3) (str ''op'') = HStr (str ''add''))
                   \<and> cells heapA 1 (str ''__proto__'') = None
                then (case hfield heapA (HRef 3) (str ''value'') of
                        HRef q \<Rightarrow> Prototype q
                      | HNull \<Rightarrow> NullPrototype
                      | _ \<Rightarrow> ObjectPrototype)
                else ObjectPrototype)"
    and rt: "cells h' (next_addr heapA) (str ''root'') =
               (if str ''/elements/name'' = str ''/root''
                then Some (hfield heapA (HRef 3) (str ''value''))
                else cells heapA 0 (str ''root''))"
    using applyPatch_heap_copy_on_write [OF hyp] by blast
  have na: "next_addr heapA = 5" by (simp add: heapA_def)
  have f: "first (split_on SLASH (drop (length (str ''/elements/'')) (str ''/elements/name''))) = Some (str ''name'')"
    by (simp add: first_def)
  have v: "hfield heapA (HRef 3) (str ''value'') = HRef 4"
    "hfield heapA (HRef 3) (str ''op'') = HStr (str ''add'')"
    by (simp_all add: heapA_def hfield_plain)
  have k1: "cells h' 6 (str ''form'') = Some (HRef 2)"
    using sh [rule_format, of "str ''form''"] f na by (simp add: heapA_def)
  have k2: "cells h' 6 (str ''name'') = Some (HRef 4)"
    using sh [rule_format, of "str ''name''"] f na v by (simp add: heapA_def startsWith_def)
  have k3: "cells h' 5 (str ''root'') = Some (HStr (str ''form''))"
    using rt na by (simp add: heapA_def)
  have k4: "protos h' 6 = ObjectPrototype"
    using pr f na by simp
  show "\<exists>h'. applyPatch_heap heapA 0 (HRef 3) = Inr (5, h')
        \<and> next_addr h' = 7
        \<and> cells h' 0 = cells heapA 0
        \<and> cells h' 1 = cells heapA 1
        \<and> cells h' 2 = cells heapA 2
        \<and> cells h' 5 (str ''elements'') = Some (HRef 6)
        \<and> cells h' 5 (str ''root'') = Some (HStr (str ''form''))
        \<and> cells h' 6 (str ''form'') = Some (HRef 2)
        \<and> cells h' 6 (str ''name'') = Some (HRef 4)
        \<and> protos h' 6 = ObjectPrototype"
    using r n old el k1 k2 k3 k4 na by auto
next
  have hyp: "hfield heapP (HRef 2) (str ''path'') = HStr (str ''/elements/__proto__'')"
    "\<forall>a. HRef 2 = HRef a \<longrightarrow> is_object heapP a"
    "is_object heapP 0"
    "hfield heapP (HRef 0) (str ''elements'') = HRef 1"
    "1 < next_addr heapP"
    by (simp_all add: heapP_def hfield_plain is_object_plain)
  obtain h' where r: "applyPatch_heap heapP 0 (HRef 2) = Inr (next_addr heapP, h')"
    and n: "next_addr h' = next_addr heapP + 2"
    and old: "\<forall>a. a < next_addr heapP \<longrightarrow> cells h' a = cells heapP a \<and> protos h' a = protos heapP a"
    and el: "cells h' (next_addr heapP) (str ''elements'') = Some (HRef (next_addr heapP + 1))"
    and sh: "\<forall>k. cells h' (next_addr heapP + 1) k =
                 (if str ''/elements/__proto__'' \<noteq> str ''/root''
                     \<and> startsWith (str ''/elements/__proto__'') (str ''/elements/'')
                     \<and> first (split_on SLASH (drop (length (str ''/elements/''))
                                                   (str ''/elements/__proto__''))) = Some k
                     \<and> k \<noteq> []
                     \<and> (hfield heapP (HRef 2) (str ''op'') = HStr (str ''set'')
                          \<or> hfield heapP (HRef 2) (str ''op'') = HStr (str ''add''))
                     \<and> (k \<noteq> str ''__proto__'' \<or> cells heapP 1 k \<noteq> None)
                  then Some (hfield heapP (HRef 2) (str ''value''))
                  else cells heapP 1 k)"
    and pr: "protos h' (next_addr heapP + 1) =
               (if str ''/elements/__proto__'' \<noteq> str ''/root''
                   \<and> startsWith (str ''/elements/__proto__'') (str ''/elements/'')
                   \<and> first (split_on SLASH (drop (length (str ''/elements/''))
                                                 (str ''/elements/__proto__'')))
                        = Some (str ''__proto__'')
                   \<and> (hfield heapP (HRef 2) (str ''op'') = HStr (str ''set'')
                        \<or> hfield heapP (HRef 2) (str ''op'') = HStr (str ''add''))
                   \<and> cells heapP 1 (str ''__proto__'') = None
                then (case hfield heapP (HRef 2) (str ''value'') of
                        HRef q \<Rightarrow> Prototype q
                      | HNull \<Rightarrow> NullPrototype
                      | _ \<Rightarrow> ObjectPrototype)
                else ObjectPrototype)"
    using applyPatch_heap_copy_on_write [OF hyp] by blast
  have na: "next_addr heapP = 6" by (simp add: heapP_def)
  have f: "first (split_on SLASH (drop (length (str ''/elements/'')) (str ''/elements/__proto__''))) = Some (str ''__proto__'')"
    by (simp add: first_def)
  have v: "hfield heapP (HRef 2) (str ''value'') = HRef 3"
    "hfield heapP (HRef 2) (str ''op'') = HStr (str ''add'')"
    by (simp_all add: heapP_def hfield_plain)
  have e1: "cells heapP 1 (str ''__proto__'') = None"
    by (simp add: heapP_def)
  have k1: "cells h' 7 (str ''__proto__'') = None"
    using sh [rule_format, of "str ''__proto__''"] na e1 by simp
  have k2: "protos h' 7 = Prototype 3"
    using pr f na v e1 by (simp add: startsWith_def)
  have k3: "protos h' 1 = ObjectPrototype"
    using old [rule_format, of 1] na by (simp add: heapP_def)
  show "\<exists>h'. applyPatch_heap heapP 0 (HRef 2) = Inr (6, h')
        \<and> next_addr h' = 8
        \<and> cells h' 0 = cells heapP 0
        \<and> cells h' 1 = cells heapP 1
        \<and> protos h' 1 = ObjectPrototype
        \<and> cells h' 6 (str ''elements'') = Some (HRef 7)
        \<and> cells h' 7 (str ''__proto__'') = None
        \<and> protos h' 7 = Prototype 3"
    using r n old el k1 k2 k3 na by auto
qed

section \<open>The tree reducer: the key \<^verbatim>\<open>__proto__\<close>\<close>

lemma trim_protoLine: "trim protoLine = protoLine"
  by (simp add: protoLine_def trim_def trimStart_def isWhiteSpace_def)

lemma JSON_parse_protoLine: "JSON_parse protoLine = Some protoPatch"
  unfolding protoLine_def protoPatch_def protoElement_def by code_simp

lemma parsePatch_protoLine: "parsePatch protoLine = protoPatch"
proof -
  have "protoLine \<noteq> []" "\<not> startsWith protoLine (str ''//'')"
    by (simp_all add: protoLine_def startsWith_def)
  then show ?thesis
    by (simp add: parsePatch_def trim_protoLine JSON_parse_protoLine)
qed

lemma applyPatch_protoPatch: "applyPatch emptyTree protoPatch = Inr emptyTree"
proof (rule applyPatch_proto_key)
  show "getField protoPatch (str ''path'') = JStr (str ''/elements/'' @ str ''__proto__'')"
    by (simp add: protoPatch_def getField_def)
  show "takeWhile (\<lambda>c. c \<noteq> SLASH) (str ''__proto__'') = str ''__proto__''"
    by simp
  show "elements emptyTree (str ''__proto__'') = None"
    by (simp add: emptyTree_def)
qed

lemma applyPatch_heap_heapP:
  "applyPatch_heap heapP 0 (HRef 2) = Inr (6, setPrototype (copied heapP 0 1) 7 (HRef 3))"
proof -
  have hyp: "\<forall>a. HRef 2 = HRef a \<longrightarrow> is_object heapP a"
    "is_object heapP 0"
    "hfield heapP (HRef 0) (str ''elements'') = HRef 1"
    "1 < next_addr heapP"
    by (simp_all add: heapP_def hfield_plain is_object_plain)
  have v: "hfield heapP (HRef 2) (str ''path'') = HStr (str ''/elements/__proto__'')"
    "hfield heapP (HRef 2) (str ''value'') = HRef 3"
    "hfield heapP (HRef 2) (str ''op'') = HStr (str ''add'')"
    "cells heapP 1 (str ''__proto__'') = None"
    "next_addr heapP = 6"
    by (simp_all add: heapP_def hfield_plain)
  show ?thesis
    unfolding applyPatch_heap_result [OF hyp]
    using v by (simp add: hnullish_def startsWith_def first_def)
qed

text \<open>
  Claim C4 says that the operation stores its value as the element at the key, for every
  key. The code does so for every key but \<^verbatim>\<open>__proto__\<close>. The line \<open>protoLine\<close> parses to an
  \<^verbatim>\<open>add\<close> on the path \<^verbatim>\<open>/elements/__proto__\<close> that carries an element. Applied to the empty
  tree it returns the empty tree: the result has no entry at the key. In the store
  \<open>heapP\<close>, which holds the same tree and patch, the result is the store after the object
  literal with the prototype of the new elements at address 7 set to the element at 3:
  the new elements have no own property \<^verbatim>\<open>__proto__\<close>, and they inherit the properties of
  the element instead of holding it.
\<close>

theorem applyPatch_proto_key_not_stored:
  "parsePatch protoLine = protoPatch
   \<and> getField protoPatch (str ''value'') = protoElement
   \<and> applyPatch emptyTree protoPatch = Inr emptyTree
   \<and> elements emptyTree (str ''__proto__'') = None
   \<and> applyPatch_heap heapP 0 (HRef 2) = Inr (6, setPrototype (copied heapP 0 1) 7 (HRef 3))
   \<and> cells (setPrototype (copied heapP 0 1) 7 (HRef 3)) 7 (str ''__proto__'') = None
   \<and> protos (setPrototype (copied heapP 0 1) 7 (HRef 3)) 7 = Prototype 3
   \<and> hfield (setPrototype (copied heapP 0 1) 7 (HRef 3)) (HRef 7) (str ''type'')
       = HStr (str ''Form'')"
proof -
  have 1: "getField protoPatch (str ''value'') = protoElement"
    by (simp add: protoPatch_def getField_def)
  have 2: "elements emptyTree (str ''__proto__'') = None"
    by (simp add: emptyTree_def)
  have 3: "cells (setPrototype (copied heapP 0 1) 7 (HRef 3)) 7 (str ''__proto__'') = None"
    by (simp add: setPrototype_def copied_def heapP_def)
  have 4: "protos (setPrototype (copied heapP 0 1) 7 (HRef 3)) 7 = Prototype 3"
    by (simp add: setPrototype_def copied_def heapP_def)
  have 5: "hfield (setPrototype (copied heapP 0 1) 7 (HRef 3)) (HRef 7) (str ''type'')
             = HStr (str ''Form'')"
    by (simp add: hfield_def setPrototype_def copied_def heapP_def eval_nat_numeral)
  show ?thesis
    using parsePatch_protoLine 1 applyPatch_protoPatch 2 applyPatch_heap_heapP 3 4 5
    by (intro conjI)
qed

section \<open>The generate route: the length of the prompt\<close>

lemma ToString_slice_length:
  "sanitizedPrompt ns prompt = Inr q \<Longrightarrow> length q \<le> MAX_PROMPT_LENGTH"
  by (auto simp: sanitizedPrompt_def split: sum.splits)

text \<open>
  Claim C10. Whatever the request body, the prompt that \<open>POST\<close> hands to the generator
  has at most 140 code units. A missing prompt becomes the empty string, a string is cut
  to its first 140 code units, and any other value is converted to a string first.
\<close>

theorem POST_prompt_length:
  "(POST ns body = Inr q \<longrightarrow> length q \<le> 140)
   \<and> (sanitizedPrompt ns prompt = Inr q \<longrightarrow> length q \<le> 140)
   \<and> sanitizedPrompt ns JUndefined = Inr []
   \<and> sanitizedPrompt ns (JStr s) = Inr (take 140 s)"
proof (intro conjI impI)
  assume "POST ns body = Inr q"
  then show "length q \<le> 140"
    using ToString_slice_length [of ns _ q]
    by (auto simp: POST_def MAX_PROMPT_LENGTH_def split: option.splits if_splits)
next
  assume "sanitizedPrompt ns prompt = Inr q"
  then show "length q \<le> 140"
    using ToString_slice_length [of ns prompt q] by (simp add: MAX_PROMPT_LENGTH_def)
next
  show "sanitizedPrompt ns JUndefined = Inr []"
    by (simp add: sanitizedPrompt_def)
next
  show "sanitizedPrompt ns (JStr s) = Inr (take 140 s)"
    by (cases "s = []") (simp_all add: sanitizedPrompt_def MAX_PROMPT_LENGTH_def)
qed

lemma JSON_parse_longBody:
  "JSON_parse longBody = Some (JObj [(str ''prompt'', JStr (replicate 150 120))])"
  unfolding longBody_def by code_simp

text \<open>
  The claim at a body with a prompt of 150 characters and at a body without a prompt.
\<close>

theorem POST_prompt_length_witness:
  "POST (\<lambda>q. []) longBody = Inr (replicate 140 120)
   \<and> length (replicate 140 (120::nat)) \<le> 140
   \<and> POST (\<lambda>q. []) (str ''{}'') = Inr []"
proof -
  have e: "JSON_parse (str ''{}'') = Some (JObj [])" by code_simp
  have p: "POST (\<lambda>q. []) longBody = Inr (replicate 140 120)"
    by (simp add: POST_def JSON_parse_longBody nullish_def getField_def sanitizedPrompt_def
          MAX_PROMPT_LENGTH_def)
  have q: "POST (\<lambda>q. []) (str ''{}'') = Inr []"
    using e by (simp add: POST_def nullish_def getField_def sanitizedPrompt_def)
  show ?thesis
    using POST_prompt_length [of "\<lambda>q. []" longBody "replicate 140 120"] p q by simp
qed

end
